theory Spec2Isabelle
  imports Complex_Main "HOL-Library.Sublist"
begin

section \<open>The task API of app.py: data model\<close>

text \<open>
  The program is a Flask application with one SQLAlchemy model, \<open>Tarea\<close>, stored in
  the SQLite table \<open>tarea\<close>, and one handler per route. Every handler is a function
  of the request and of the table, returning the response (a body and a status code, as
  the Flask tuple \<open>(jsonify(...), status)\<close>) and the table after the request.

  A request body is the value of \<open>request.json\<close>: an already parsed JSON document
  (a request whose body is not JSON is outside the model).
  A Python \<open>str\<close> is the list of its code points (the integers \<open>ord\<close> gives), so
  a text may hold any character, a lone surrogate too (\<open>json.loads\<close> accepts one). A Python dict is an association
  list read with \<open>map_of\<close>.
  A float is a rational here: a float that is not finite (NaN, an infinity) behaves on
  every path below as a float other than 0.0 and 1.0 does.

  What app.py leaves to its libraries is modelled as the libraries do it, each at the
  definition that needs it: SQLite gives a new row the largest rowid plus one
  (\<open>next_rowid\<close>); the sqlite3 driver refuses an integer parameter outside 64 bits
  (\<open>query_get\<close>) and a text parameter that holds a surrogate (\<open>bind_texto\<close>);
  SQLAlchemy accepts only \<open>None\<close>, \<open>True\<close>, \<open>False\<close> and the numbers equal to them
  for a Boolean column (\<open>bind_boolean\<close>) and leaves a \<open>None\<close> out of an INSERT
  (\<open>insert_tarea\<close>); a statement that raises none of these is committed, and a
  rollback restores the table. Faults of the disk or of the connection are not
  modelled, and neither are the size limits of SQLite (a row of about \<open>10 ^ 9\<close> bytes,
  a rowid of \<open>2 ^ 63\<close>).
\<close>

type_synonym pystr = "int list"

text \<open>A string literal of the source, as the list of its code points.\<close>

definition lit :: "string \<Rightarrow> pystr" where
  "lit s = map of_char s"

datatype json =
    JNull
  | JBool bool
  | JInt int
  | JFloat rat
  | JStr pystr
  | JArr "json list"
  | JObj "(pystr \<times> json) list"

text \<open>
  The exceptions the handlers can meet. A Python \<open>TypeError\<close> or \<open>ValueError\<close>
  raised while SQLAlchemy binds a parameter reaches the handler wrapped in a
  \<open>StatementError\<close>; the two errors of the sqlite3 driver reach it as they are.
\<close>

datatype excepcion =
    TypeError
  | AttributeError
  | KeyError
  | StatementError
  | OverflowError
  | UnicodeEncodeError

text \<open>
  \<open>fecha_creacion\<close> is a \<open>datetime\<close>; only its identity matters here, so it is a
  number (say, microseconds since the epoch), and \<open>isoformat\<close> is left unrendered.
\<close>

type_synonym datetime = nat

text \<open>
  A row of the table (lines 24 to 31). \<open>id\<close> is the integer primary key,
  \<open>texto\<close> is not nullable, \<open>completada\<close> is a nullable Boolean column, read back
  as \<open>None\<close>, \<open>True\<close> or \<open>False\<close>. The table is the list of its rows in the
  order of insertion.
\<close>

record tarea =
  tarea_id :: int
  texto :: pystr
  completada :: "bool option"
  fecha_creacion :: datetime

type_synonym tabla = "tarea list"

text \<open>The dict built by \<open>to_dict\<close> (lines 33 to 42), with its four keys.\<close>

record tarea_dict =
  d_id :: int
  d_texto :: pystr
  d_completada :: "bool option"
  d_fecha_creacion :: datetime

definition to_dict :: "tarea \<Rightarrow> tarea_dict" where
  "to_dict r = \<lparr>d_id = tarea_id r, d_texto = texto r, d_completada = completada r,
     d_fecha_creacion = fecha_creacion r\<rparr>"

text \<open>
  The response bodies. An error body is \<open>{"error": msg}\<close>; the three fixed messages
  of the source and \<open>str(e)\<close> of a caught exception are the cases of \<open>mensaje_error\<close>.
\<close>

datatype mensaje_error =
    Falta_el_campo_texto
  | El_texto_no_puede_estar_vacio
  | Tarea_no_encontrada
  | Str_excepcion excepcion

datatype cuerpo =
    Tarea_json tarea_dict
  | Lista_json "tarea_dict list"
  | Error_json mensaje_error
  | Mensaje_tarea_eliminada
  | Estadisticas_json int int int

type_synonym respuesta = "cuerpo \<times> nat"

section \<open>The Python operations the handlers use\<close>

text \<open>
  \<open>str.strip()\<close> removes leading and trailing white space: the code points for which
  \<open>str.isspace\<close> holds, which are 9 to 13, 28 to 32, 133, 160, 5760, 8192 to 8202,
  8232, 8233, 8239, 8287 and 12288.
\<close>

definition isspace :: "int \<Rightarrow> bool" where
  "isspace n =
     ((9 \<le> n \<and> n \<le> 13) \<or> (28 \<le> n \<and> n \<le> 32) \<or> n = 133 \<or> n = 160 \<or> n = 5760 \<or>
      (8192 \<le> n \<and> n \<le> 8202) \<or> n = 8232 \<or> n = 8233 \<or> n = 8239 \<or> n = 8287 \<or>
      n = 12288)"

definition strip :: "pystr \<Rightarrow> pystr" where
  "strip s = rev (dropWhile isspace (rev (dropWhile isspace s)))"

text \<open>Truth value of a Python object, as \<open>not datos\<close> tests it.\<close>

fun truthy :: "json \<Rightarrow> bool" where
  "truthy JNull = False"
| "truthy (JBool b) = b"
| "truthy (JInt n) = (n \<noteq> 0)"
| "truthy (JFloat f) = (f \<noteq> 0)"
| "truthy (JStr s) = (s \<noteq> [])"
| "truthy (JArr xs) = (xs \<noteq> [])"
| "truthy (JObj kvs) = (kvs \<noteq> [])"

text \<open>
  \<open>k in datos\<close>: a key of a dict, an element of a list, a substring of a string;
  a \<open>TypeError\<close> for \<open>None\<close>, a bool or a number.
\<close>

fun py_in :: "pystr \<Rightarrow> json \<Rightarrow> excepcion + bool" where
  "py_in k (JObj kvs) = Inr (map_of kvs k \<noteq> None)"
| "py_in k (JArr xs) = Inr (JStr k \<in> set xs)"
| "py_in k (JStr s) = Inr (sublist k s)"
| "py_in k JNull = Inl TypeError"
| "py_in k (JBool b) = Inl TypeError"
| "py_in k (JInt n) = Inl TypeError"
| "py_in k (JFloat f) = Inl TypeError"

text \<open>
  \<open>datos[k]\<close> with a string \<open>k\<close>: the value of a dict, a \<open>KeyError\<close> when the
  key is absent, a \<open>TypeError\<close> for anything that is not a dict.
\<close>

fun py_getitem :: "json \<Rightarrow> pystr \<Rightarrow> excepcion + json" where
  "py_getitem (JObj kvs) k = (case map_of kvs k of Some v \<Rightarrow> Inr v | None \<Rightarrow> Inl KeyError)"
| "py_getitem JNull k = Inl TypeError"
| "py_getitem (JBool b) k = Inl TypeError"
| "py_getitem (JInt n) k = Inl TypeError"
| "py_getitem (JFloat f) k = Inl TypeError"
| "py_getitem (JStr s) k = Inl TypeError"
| "py_getitem (JArr xs) k = Inl TypeError"

text \<open>\<open>v.strip()\<close>: only a string has the method.\<close>

fun py_strip :: "json \<Rightarrow> excepcion + pystr" where
  "py_strip (JStr s) = Inr (strip s)"
| "py_strip JNull = Inl AttributeError"
| "py_strip (JBool b) = Inl AttributeError"
| "py_strip (JInt n) = Inl AttributeError"
| "py_strip (JFloat f) = Inl AttributeError"
| "py_strip (JArr xs) = Inl AttributeError"
| "py_strip (JObj kvs) = Inl AttributeError"

text \<open>\<open>datos.get(k, d)\<close>: only a dict has the method.\<close>

fun py_get :: "json \<Rightarrow> pystr \<Rightarrow> json \<Rightarrow> excepcion + json" where
  "py_get (JObj kvs) k d = Inr (case map_of kvs k of Some v \<Rightarrow> v | None \<Rightarrow> d)"
| "py_get JNull k d = Inl AttributeError"
| "py_get (JBool b) k d = Inl AttributeError"
| "py_get (JInt n) k d = Inl AttributeError"
| "py_get (JFloat f) k d = Inl AttributeError"
| "py_get (JStr s) k d = Inl AttributeError"
| "py_get (JArr xs) k d = Inl AttributeError"

section \<open>The table\<close>

text \<open>
  An integer parameter of a statement must fit an SQLite INTEGER, that is 64 bits with
  a sign; for any other the sqlite3 driver raises \<open>OverflowError\<close>.
\<close>

definition cabe_en_integer :: "int \<Rightarrow> bool" where
  "cabe_en_integer i = (- (2 ^ 63) \<le> i \<and> i < 2 ^ 63)"

text \<open>
  \<open>Tarea.query.get(id)\<close>: the row with that primary key, or \<open>None\<close>; the id is a
  parameter of the SELECT. The route converter \<open>int\<close> passes any number written in
  digits, of whatever size.
\<close>

definition query_get :: "int \<Rightarrow> tabla \<Rightarrow> excepcion + tarea option" where
  "query_get i t =
     (if cabe_en_integer i then Inr (find (\<lambda>r. tarea_id r = i) t) else Inl OverflowError)"

text \<open>
  The column \<open>id\<close> is declared \<open>db.Column(db.Integer, primary_key=True)\<close> (line 28)
  on an SQLite database (line 14) and nothing asks for \<open>AUTOINCREMENT\<close>, so the
  column is the table's rowid: a row inserted without an id gets the largest id in the
  table plus one, and 1 in an empty table. The 64-bit limit of a rowid is not modelled:
  no run reaches it in fewer than \<open>2 ^ 63\<close> creates.
\<close>

definition next_rowid :: "tabla \<Rightarrow> int" where
  "next_rowid t = (if t = [] then 1 else Max (set (map tarea_id t)) + 1)"

text \<open>
  A value bound to the Boolean column \<open>completada\<close> (line 30): \<open>None\<close>, \<open>True\<close>
  and \<open>False\<close> pass, and so do the numbers equal to them; SQLAlchemy refuses anything
  else when the statement is flushed.
\<close>

fun bind_boolean :: "json \<Rightarrow> excepcion + bool option" where
  "bind_boolean JNull = Inr None"
| "bind_boolean (JBool b) = Inr (Some b)"
| "bind_boolean (JInt n) =
     (if n = 0 then Inr (Some False) else if n = 1 then Inr (Some True) else Inl StatementError)"
| "bind_boolean (JFloat f) =
     (if f = 0 then Inr (Some False) else if f = 1 then Inr (Some True) else Inl StatementError)"
| "bind_boolean (JStr s) = Inl StatementError"
| "bind_boolean (JArr xs) = Inl StatementError"
| "bind_boolean (JObj kvs) = Inl StatementError"

text \<open>
  A text bound to the column \<open>texto\<close> (line 29) is encoded as UTF-8 by the sqlite3
  driver, which raises \<open>UnicodeEncodeError\<close> on a surrogate (a code point from D800
  to DFFF). SQLite does not enforce the length 200.
\<close>

definition surrogate :: "int \<Rightarrow> bool" where
  "surrogate n = (55296 \<le> n \<and> n \<le> 57343)"

definition bind_texto :: "pystr \<Rightarrow> excepcion + pystr" where
  "bind_texto s = (if list_ex surrogate s then Inl UnicodeEncodeError else Inr s)"

text \<open>
  \<open>db.session.add(nueva_tarea); db.session.commit()\<close> (lines 129, 130): the INSERT.
  The id is the next rowid, \<open>fecha_creacion\<close> takes its default \<open>datetime.utcnow\<close>
  (the argument \<open>now\<close>), and a \<open>completada\<close> that is \<open>None\<close> is left out of the
  INSERT, so the column default \<open>False\<close> is stored.
\<close>

definition insert_tarea ::
  "datetime \<Rightarrow> pystr \<Rightarrow> bool option \<Rightarrow> tabla \<Rightarrow> excepcion + (tarea \<times> tabla)" where
  "insert_tarea now txt valor t =
     (case bind_texto txt of
        Inl e \<Rightarrow> Inl e
      | Inr s \<Rightarrow>
         (let r = \<lparr>tarea_id = next_rowid t, texto = s,
                    completada = (case valor of None \<Rightarrow> Some False | Some b \<Rightarrow> Some b),
                    fecha_creacion = now\<rparr>
          in Inr (r, t @ [r])))"

text \<open>
  The UPDATE of a loaded row (\<open>vieja\<close>) to its new state, by primary key. The
  statement sets the columns that changed, so \<open>texto\<close> is bound only when it did;
  \<open>reemplazar\<close> is the table the statement leaves.
\<close>

definition reemplazar :: "tarea \<Rightarrow> tabla \<Rightarrow> tabla" where
  "reemplazar r t = map (\<lambda>x. if tarea_id x = tarea_id r then r else x) t"

definition update_tarea :: "tarea \<Rightarrow> tarea \<Rightarrow> tabla \<Rightarrow> excepcion + tabla" where
  "update_tarea vieja r t =
     (case (if texto r = texto vieja then Inr (texto r) else bind_texto (texto r)) of
        Inl e \<Rightarrow> Inl e
      | Inr s \<Rightarrow> Inr (reemplazar r t))"

text \<open>The DELETE of a loaded row, by primary key.\<close>

definition delete_tarea :: "tarea \<Rightarrow> tabla \<Rightarrow> tabla" where
  "delete_tarea r t = filter (\<lambda>x. tarea_id x \<noteq> tarea_id r) t"

section \<open>The handlers\<close>

text \<open>
  Each handler is a \<open>try\<close> block and an \<open>except Exception\<close> clause. The block is a
  function into \<open>excepcion + _\<close>; the clause rolls the session back where there is
  something to roll back, so the table is the one before the request, and answers 500
  with \<open>str(e)\<close>.
\<close>

definition obtener_tareas :: "tabla \<Rightarrow> respuesta \<times> tabla" where
  "obtener_tareas t = ((Lista_json (map to_dict t), 200), t)"

text \<open>Lines 94 to 101, and the handler with its clause (lines 102 to 104).\<close>

definition obtener_tarea_try :: "int \<Rightarrow> tabla \<Rightarrow> excepcion + (respuesta \<times> tabla)" where
  "obtener_tarea_try i t =
     (case query_get i t of
        Inl e \<Rightarrow> Inl e
      | Inr None \<Rightarrow> Inr ((Error_json Tarea_no_encontrada, 404), t)
      | Inr (Some tarea) \<Rightarrow> Inr ((Tarea_json (to_dict tarea), 200), t))"

definition obtener_tarea :: "int \<Rightarrow> tabla \<Rightarrow> respuesta \<times> tabla" where
  "obtener_tarea i t =
     (case obtener_tarea_try i t of
        Inr r \<Rightarrow> r
      | Inl e \<Rightarrow> ((Error_json (Str_excepcion e), 500), t))"

text \<open>Lines 113 to 133.\<close>

definition crear_tarea_try :: "datetime \<Rightarrow> json \<Rightarrow> tabla \<Rightarrow> excepcion + (respuesta \<times> tabla)" where
  "crear_tarea_try now datos t =
     (if \<not> truthy datos then Inr ((Error_json Falta_el_campo_texto, 400), t)
      else (case py_in (lit ''texto'') datos of
        Inl e \<Rightarrow> Inl e
      | Inr presente \<Rightarrow>
         (if \<not> presente then Inr ((Error_json Falta_el_campo_texto, 400), t)
          else (case py_getitem datos (lit ''texto'') of
            Inl e \<Rightarrow> Inl e
          | Inr v \<Rightarrow>
             (case py_strip v of
                Inl e \<Rightarrow> Inl e
              | Inr s \<Rightarrow>
                 (if s = [] then Inr ((Error_json El_texto_no_puede_estar_vacio, 400), t)
                  else (case py_get datos (lit ''completada'') (JBool False) of
                    Inl e \<Rightarrow> Inl e
                  | Inr c \<Rightarrow>
                     (case bind_boolean c of
                        Inl e \<Rightarrow> Inl e
                      | Inr b \<Rightarrow>
                         (case insert_tarea now s b t of
                            Inl e \<Rightarrow> Inl e
                          | Inr (nueva_tarea, t') \<Rightarrow>
                              Inr ((Tarea_json (to_dict nueva_tarea), 201), t'))))))))))"

definition crear_tarea :: "datetime \<Rightarrow> json \<Rightarrow> tabla \<Rightarrow> respuesta \<times> tabla" where
  "crear_tarea now datos t =
     (case crear_tarea_try now datos t of
        Inr r \<Rightarrow> r
      | Inl e \<Rightarrow> ((Error_json (Str_excepcion e), 500), t))"

text \<open>
  Lines 155 and 156, and lines 157 and 158. The value assigned to \<open>completada\<close> is
  bound when the session is flushed by the commit of line 161, before the statement is
  run; nothing happens in between, so the assignment binds it.
\<close>

definition asignar_texto :: "json \<Rightarrow> tarea \<Rightarrow> excepcion + tarea" where
  "asignar_texto datos tarea =
     (case py_in (lit ''texto'') datos of
        Inl e \<Rightarrow> Inl e
      | Inr presente \<Rightarrow>
          if presente then
            (case py_getitem datos (lit ''texto'') of
               Inl e \<Rightarrow> Inl e
             | Inr v \<Rightarrow> (case py_strip v of Inl e \<Rightarrow> Inl e | Inr s \<Rightarrow> Inr (tarea\<lparr>texto := s\<rparr>)))
          else Inr tarea)"

definition asignar_completada :: "json \<Rightarrow> tarea \<Rightarrow> excepcion + tarea" where
  "asignar_completada datos tarea =
     (case py_in (lit ''completada'') datos of
        Inl e \<Rightarrow> Inl e
      | Inr presente \<Rightarrow>
          if presente then
            (case py_getitem datos (lit ''completada'') of
               Inl e \<Rightarrow> Inl e
             | Inr v \<Rightarrow> (case bind_boolean v of Inl e \<Rightarrow> Inl e | Inr b \<Rightarrow> Inr (tarea\<lparr>completada := b\<rparr>)))
          else Inr tarea)"

text \<open>Lines 147 to 164.\<close>

definition actualizar_tarea_try :: "int \<Rightarrow> json \<Rightarrow> tabla \<Rightarrow> excepcion + (respuesta \<times> tabla)" where
  "actualizar_tarea_try i datos t =
     (case query_get i t of
        Inl e \<Rightarrow> Inl e
      | Inr None \<Rightarrow> Inr ((Error_json Tarea_no_encontrada, 404), t)
      | Inr (Some tarea) \<Rightarrow>
         (case asignar_texto datos tarea of
            Inl e \<Rightarrow> Inl e
          | Inr tarea1 \<Rightarrow>
             (case asignar_completada datos tarea1 of
                Inl e \<Rightarrow> Inl e
              | Inr tarea2 \<Rightarrow>
                 (case update_tarea tarea tarea2 t of
                    Inl e \<Rightarrow> Inl e
                  | Inr t' \<Rightarrow> Inr ((Tarea_json (to_dict tarea2), 200), t')))))"

definition actualizar_tarea :: "int \<Rightarrow> json \<Rightarrow> tabla \<Rightarrow> respuesta \<times> tabla" where
  "actualizar_tarea i datos t =
     (case actualizar_tarea_try i datos t of
        Inr r \<Rightarrow> r
      | Inl e \<Rightarrow> ((Error_json (Str_excepcion e), 500), t))"

text \<open>Lines 177 to 186, and the handler with its clause (lines 188 to 191).\<close>

definition eliminar_tarea_try :: "int \<Rightarrow> tabla \<Rightarrow> excepcion + (respuesta \<times> tabla)" where
  "eliminar_tarea_try i t =
     (case query_get i t of
        Inl e \<Rightarrow> Inl e
      | Inr None \<Rightarrow> Inr ((Error_json Tarea_no_encontrada, 404), t)
      | Inr (Some tarea) \<Rightarrow> Inr ((Mensaje_tarea_eliminada, 200), delete_tarea tarea t))"

definition eliminar_tarea :: "int \<Rightarrow> tabla \<Rightarrow> respuesta \<times> tabla" where
  "eliminar_tarea i t =
     (case eliminar_tarea_try i t of
        Inr r \<Rightarrow> r
      | Inl e \<Rightarrow> ((Error_json (Str_excepcion e), 500), t))"

text \<open>
  Lines 209 to 217: \<open>count()\<close> of all rows and of the rows whose \<open>completada\<close> is
  true (a NULL is not counted).
\<close>

definition obtener_estadisticas :: "tabla \<Rightarrow> respuesta \<times> tabla" where
  "obtener_estadisticas t =
     (let total = int (length t);
          completadas = int (length (filter (\<lambda>r. completada r = Some True) t));
          pendientes = total - completadas
      in ((Estadisticas_json total completadas pendientes, 200), t))"

section \<open>Requests and runs\<close>

datatype peticion =
    GET_tareas
  | GET_tarea int
  | POST_tareas datetime json
  | PUT_tarea int json
  | DELETE_tarea int
  | GET_estadisticas

fun despachar :: "peticion \<Rightarrow> tabla \<Rightarrow> respuesta \<times> tabla" where
  "despachar GET_tareas t = obtener_tareas t"
| "despachar (GET_tarea i) t = obtener_tarea i t"
| "despachar (POST_tareas now datos) t = crear_tarea now datos t"
| "despachar (PUT_tarea i datos) t = actualizar_tarea i datos t"
| "despachar (DELETE_tarea i) t = eliminar_tarea i t"
| "despachar GET_estadisticas t = obtener_estadisticas t"

text \<open>A run answers the requests one after the other, each on the table the last left.\<close>

fun ejecutar :: "peticion list \<Rightarrow> tabla \<Rightarrow> respuesta list \<times> tabla" where
  "ejecutar [] t = ([], t)"
| "ejecutar (p # ps) t =
     (case despachar p t of
        (r, t') \<Rightarrow> (case ejecutar ps t' of (rs, t'') \<Rightarrow> (r # rs, t'')))"

text \<open>
  The ids a run assigned: the \<open>id\<close> of every 201 response, in order (only
  \<open>crear_tarea\<close> answers 201).
\<close>

fun id_asignado :: "respuesta \<Rightarrow> int list" where
  "id_asignado (Tarea_json d, st) = (if st = 201 then [d_id d] else [])"
| "id_asignado (_, st) = []"

definition ids_asignados :: "respuesta list \<Rightarrow> int list" where
  "ids_asignados rs = concat (map id_asignado rs)"

text \<open>
  A request that deletes the row with the largest id of the table: a DELETE whose id
  is found and is the largest of the table. A run without such a request, from a given
  table: no request of it is one on the table it meets.
\<close>

definition borra_mayor :: "peticion \<Rightarrow> tabla \<Rightarrow> bool" where
  "borra_mayor p t =
     (case p of
        DELETE_tarea i \<Rightarrow>
          (case query_get i t of
             Inr (Some r) \<Rightarrow> tarea_id r = Max (set (map tarea_id t))
           | _ \<Rightarrow> False)
      | _ \<Rightarrow> False)"

fun sin_borrar_mayor :: "peticion list \<Rightarrow> tabla \<Rightarrow> bool" where
  "sin_borrar_mayor [] t = True"
| "sin_borrar_mayor (p # ps) t =
     (\<not> borra_mayor p t \<and> sin_borrar_mayor ps (snd (despachar p t)))"

text \<open>
  Two request sequences of the statistics scenario: one POST \<open>{"texto": s}\<close> per
  text, and one PUT \<open>{"completada": true}\<close> per id.
\<close>

definition peticiones_crear :: "(datetime \<times> pystr) list \<Rightarrow> peticion list" where
  "peticiones_crear xs = map (\<lambda>(now, s). POST_tareas now (JObj [(lit ''texto'', JStr s)])) xs"

definition peticiones_completar :: "int list \<Rightarrow> peticion list" where
  "peticiones_completar ks =
     map (\<lambda>i. PUT_tarea i (JObj [(lit ''completada'', JBool True)])) ks"

text \<open>The ids of the rows that \<open>filter_by(completada=True)\<close> selects.\<close>

definition ids_completadas :: "tabla \<Rightarrow> int set" where
  "ids_completadas t = tarea_id ` {r \<in> set t. completada r = Some True}"

section \<open>Facts about the table\<close>

lemma lit_eq_iff: "lit a = lit b \<longleftrightarrow> a = b"
proof -
  have "inj (of_char :: char \<Rightarrow> int)"
    by (rule injI) simp
  then have "inj (map (of_char :: char \<Rightarrow> int))"
    by simp
  then show ?thesis
    unfolding lit_def by (rule inj_eq)
qed

lemma query_get_None_iff:
  "query_get i t = Inr None \<longleftrightarrow> cabe_en_integer i \<and> i \<notin> set (map tarea_id t)"
  by (auto simp: query_get_def find_None_iff)

lemma find_id_SomeD: "find (\<lambda>r. tarea_id r = i) t = Some r \<Longrightarrow> r \<in> set t \<and> tarea_id r = i"
  by (induction t) (auto split: if_splits)

lemma query_get_SomeD:
  "query_get i t = Inr (Some r) \<Longrightarrow> r \<in> set t \<and> tarea_id r = i \<and> cabe_en_integer i"
  by (auto simp: query_get_def dest: find_id_SomeD split: if_splits)

lemma query_get_Inl: "query_get i t = Inl e \<Longrightarrow> e = OverflowError \<and> \<not> cabe_en_integer i"
  by (auto simp: query_get_def split: if_splits)

lemma query_get_found:
  "cabe_en_integer i \<Longrightarrow> i \<in> set (map tarea_id t) \<Longrightarrow> \<exists>r. query_get i t = Inr (Some r)"
  by (cases "find (\<lambda>r. tarea_id r = i) t") (auto simp: query_get_def find_None_iff)

lemma next_rowid_greater: "r \<in> set t \<Longrightarrow> tarea_id r < next_rowid t"
proof -
  assume r: "r \<in> set t"
  then have "tarea_id r \<le> Max (set (map tarea_id t))"
    by (intro Max_ge) auto
  with r show ?thesis
    by (auto simp: next_rowid_def)
qed

lemma next_rowid_fresh: "next_rowid t \<notin> set (map tarea_id t)"
  using next_rowid_greater by fastforce

lemma next_rowid_positive: "list_all (\<lambda>r. 0 < tarea_id r) t \<Longrightarrow> 0 < next_rowid t"
proof (cases t)
  case Nil
  then show ?thesis by (simp add: next_rowid_def)
next
  case (Cons r rs)
  assume "list_all (\<lambda>r. 0 < tarea_id r) t"
  with Cons have "0 < tarea_id r" by simp
  moreover from Cons have "tarea_id r < next_rowid t"
    by (intro next_rowid_greater) simp
  ultimately show ?thesis by simp
qed

section \<open>Facts about the update\<close>

lemma asignar_texto_id: "asignar_texto datos r = Inr r1 \<Longrightarrow> tarea_id r1 = tarea_id r"
  by (auto simp: asignar_texto_def split: sum.splits if_splits)

lemma asignar_completada_id: "asignar_completada datos r = Inr r1 \<Longrightarrow> tarea_id r1 = tarea_id r"
  by (auto simp: asignar_completada_def split: sum.splits if_splits)

text \<open>An assignment that went through goes through again and changes nothing more.\<close>

lemma asignar_texto_again:
  "asignar_texto datos r = Inr r1 \<Longrightarrow> asignar_completada datos r1 = Inr r2 \<Longrightarrow>
   asignar_texto datos r2 = Inr r2"
  by (auto simp: asignar_texto_def asignar_completada_def split: sum.splits if_splits)

lemma asignar_completada_again:
  "asignar_completada datos r1 = Inr r2 \<Longrightarrow> asignar_completada datos r2 = Inr r2"
  by (auto simp: asignar_completada_def split: sum.splits if_splits)

lemma find_id_reemplazar:
  "find (\<lambda>r. tarea_id r = i) t = Some r \<Longrightarrow> tarea_id r' = i \<Longrightarrow>
   find (\<lambda>r. tarea_id r = i) (reemplazar r' t) = Some r'"
  by (induction t) (auto simp: reemplazar_def split: if_splits)

lemma find_id_reemplazar_other:
  "j \<noteq> tarea_id r' \<Longrightarrow>
   find (\<lambda>r. tarea_id r = j) (reemplazar r' t) = find (\<lambda>r. tarea_id r = j) t"
  by (induction t) (auto simp: reemplazar_def)

lemma query_get_reemplazar:
  "query_get i t = Inr (Some r) \<Longrightarrow> tarea_id r' = i \<Longrightarrow>
   query_get i (reemplazar r' t) = Inr (Some r')"
  by (auto simp: query_get_def find_id_reemplazar split: if_splits)

lemma query_get_reemplazar_other:
  "j \<noteq> tarea_id r' \<Longrightarrow> query_get j (reemplazar r' t) = query_get j t"
  by (simp add: query_get_def find_id_reemplazar_other)

lemma reemplazar_twice: "reemplazar r (reemplazar r t) = reemplazar r t"
  by (induction t) (auto simp: reemplazar_def)

lemma map_tarea_id_reemplazar: "map tarea_id (reemplazar r t) = map tarea_id t"
  by (induction t) (auto simp: reemplazar_def)

lemma nth_reemplazar:
  "n < length t \<Longrightarrow> tarea_id (t ! n) \<noteq> tarea_id r \<Longrightarrow> reemplazar r t ! n = t ! n"
  by (simp add: reemplazar_def)

lemma update_tarea_Inr: "update_tarea vieja r t = Inr t' \<Longrightarrow> t' = reemplazar r t"
  by (auto simp: update_tarea_def split: sum.splits if_splits)

lemma update_tarea_same_texto:
  "texto r = texto vieja \<Longrightarrow> update_tarea vieja r t = Inr (reemplazar r t)"
  by (simp add: update_tarea_def)

section \<open>Facts about the delete\<close>

lemma query_get_delete_tarea_other:
  "j \<noteq> tarea_id r \<Longrightarrow> query_get j (delete_tarea r t) = query_get j t"
proof -
  assume "j \<noteq> tarea_id r"
  then have "find (\<lambda>x. tarea_id x = j) (delete_tarea r t) = find (\<lambda>x. tarea_id x = j) t"
    by (induction t) (auto simp: delete_tarea_def)
  then show ?thesis by (simp add: query_get_def)
qed

lemma query_get_delete_tarea_same:
  "cabe_en_integer (tarea_id r) \<Longrightarrow> query_get (tarea_id r) (delete_tarea r t) = Inr None"
  by (auto simp: query_get_None_iff delete_tarea_def)

lemma length_delete_tarea:
  "distinct (map tarea_id t) \<Longrightarrow> r \<in> set t \<Longrightarrow> length t = Suc (length (delete_tarea r t))"
proof (induction t)
  case Nil
  then show ?case by simp
next
  case (Cons x t)
  show ?case
  proof (cases "tarea_id x = tarea_id r")
    case True
    with Cons.prems have "\<forall>y\<in>set t. tarea_id y \<noteq> tarea_id r"
      by (auto simp: image_iff)
    then have "filter (\<lambda>y. tarea_id y \<noteq> tarea_id r) t = t"
      by (simp add: filter_id_conv)
    with True show ?thesis by (simp add: delete_tarea_def)
  next
    case False
    with Cons.prems have "r \<in> set t" "distinct (map tarea_id t)" by auto
    then have "length t = Suc (length (delete_tarea r t))" by (intro Cons.IH)
    with False show ?thesis by (simp add: delete_tarea_def)
  qed
qed

lemma set_delete_tarea:
  "distinct (map tarea_id t) \<Longrightarrow> r \<in> set t \<Longrightarrow> set (delete_tarea r t) = set t - {r}"
  by (auto simp: delete_tarea_def distinct_map inj_on_def)

text \<open>Deleting a row that has not the largest id leaves the next rowid as it was.\<close>

lemma next_rowid_delete_tarea:
  assumes "r \<in> set t" and "tarea_id r \<noteq> Max (set (map tarea_id t))"
  shows "next_rowid (delete_tarea r t) = next_rowid t"
proof -
  let ?A = "set (map tarea_id t)"
  let ?B = "set (map tarea_id (delete_tarea r t))"
  from assms(1) have ne: "?A \<noteq> {}" by auto
  then have "Max ?A \<in> ?A" by (intro Max_in) simp
  with assms(2) have in_B: "Max ?A \<in> ?B"
    by (auto simp: delete_tarea_def)
  have "?B \<subseteq> ?A" by (auto simp: delete_tarea_def)
  then have "\<forall>b\<in>?B. b \<le> Max ?A" by (auto intro: Max_ge)
  with in_B have "Max ?B = Max ?A"
    by (intro Max_eqI) auto
  moreover from in_B have "delete_tarea r t \<noteq> []" by auto
  moreover from assms(1) have "t \<noteq> []" by auto
  ultimately show ?thesis by (simp add: next_rowid_def)
qed

section \<open>What one request does to the table\<close>

lemma crear_tarea_cases:
  assumes "crear_tarea now datos t = (resp, t')"
  shows "(t' = t \<and> snd resp \<noteq> 201) \<or>
    (\<exists>s b. t' = t @ [\<lparr>tarea_id = next_rowid t, texto = s, completada = Some b,
        fecha_creacion = now\<rparr>] \<and>
      resp = (Tarea_json \<lparr>d_id = next_rowid t, d_texto = s, d_completada = Some b,
        d_fecha_creacion = now\<rparr>, 201))"
  using assms
  by (auto simp: crear_tarea_def crear_tarea_try_def insert_tarea_def to_dict_def Let_def
      split: sum.splits if_splits option.splits)

lemma obtener_tarea_cases:
  assumes "obtener_tarea i t = (resp, t')"
  shows "snd resp \<noteq> 201 \<and> t' = t"
  using assms
  by (auto simp: obtener_tarea_def obtener_tarea_try_def split: sum.splits option.splits)

lemma actualizar_tarea_cases:
  assumes "actualizar_tarea i datos t = (resp, t')"
  shows "snd resp \<noteq> 201 \<and> map tarea_id t' = map tarea_id t"
  using assms
  by (auto simp: actualizar_tarea_def actualizar_tarea_try_def map_tarea_id_reemplazar
      dest!: update_tarea_Inr split: sum.splits option.splits)

lemma eliminar_tarea_cases:
  assumes "eliminar_tarea i t = (resp, t')"
  shows "snd resp \<noteq> 201 \<and> (t' = t \<or> t' = filter (\<lambda>x. tarea_id x \<noteq> i) t)"
  using assms
  by (auto simp: eliminar_tarea_def eliminar_tarea_try_def delete_tarea_def
      dest: query_get_SomeD split: sum.splits option.splits)

lemma next_rowid_append:
  "tarea_id r = next_rowid t \<Longrightarrow> next_rowid (t @ [r]) = next_rowid t + 1"
proof (cases "t = []")
  case True
  assume "tarea_id r = next_rowid t"
  with True show ?thesis by (simp add: next_rowid_def)
next
  case False
  assume r: "tarea_id r = next_rowid t"
  from False have "Max (insert (tarea_id r) (set (map tarea_id t))) =
      max (tarea_id r) (Max (set (map tarea_id t)))"
    by (intro Max_insert) auto
  with False r show ?thesis by (simp add: next_rowid_def)
qed

lemma next_rowid_cong: "map tarea_id t' = map tarea_id t \<Longrightarrow> next_rowid t' = next_rowid t"
proof -
  assume eq: "map tarea_id t' = map tarea_id t"
  then have "length t' = length t" by (rule map_eq_imp_length_eq)
  then have "t' = [] \<longleftrightarrow> t = []" by auto
  with eq show ?thesis by (simp add: next_rowid_def)
qed

text \<open>The primary key: ids are unique and positive, in every table a run reaches.\<close>

lemma despachar_clave:
  assumes "distinct (map tarea_id t)" and "\<forall>i\<in>set (map tarea_id t). 0 < i"
    and "despachar p t = (resp, t')"
  shows "distinct (map tarea_id t') \<and> (\<forall>i\<in>set (map tarea_id t'). 0 < i)"
proof (cases p)
  case GET_tareas
  with assms show ?thesis by (auto simp: obtener_tareas_def)
next
  case (GET_tarea i)
  with assms(3) have "obtener_tarea i t = (resp, t')" by simp
  from obtener_tarea_cases [OF this] assms(1,2) show ?thesis by simp
next
  case (POST_tareas now datos)
  with assms(3) have "crear_tarea now datos t = (resp, t')" by simp
  from crear_tarea_cases [OF this] show ?thesis
  proof
    assume "t' = t \<and> snd resp \<noteq> 201"
    with assms show ?thesis by simp
  next
    assume "\<exists>s b. t' = t @ [\<lparr>tarea_id = next_rowid t, texto = s, completada = Some b,
        fecha_creacion = now\<rparr>] \<and>
      resp = (Tarea_json \<lparr>d_id = next_rowid t, d_texto = s, d_completada = Some b,
        d_fecha_creacion = now\<rparr>, 201)"
    then have ids: "map tarea_id t' = map tarea_id t @ [next_rowid t]" by auto
    have "0 < next_rowid t"
      using assms(2) by (intro next_rowid_positive) (simp add: list_all_iff)
    with ids assms(1,2) next_rowid_fresh [of t] show ?thesis by auto
  qed
next
  case (PUT_tarea i datos)
  with assms(3) have "actualizar_tarea i datos t = (resp, t')" by simp
  from actualizar_tarea_cases [OF this] assms(1,2) show ?thesis by simp
next
  case (DELETE_tarea i)
  with assms(3) have "eliminar_tarea i t = (resp, t')" by simp
  from eliminar_tarea_cases [OF this] assms(1,2) show ?thesis
    by (auto simp: distinct_map_filter)
next
  case GET_estadisticas
  with assms show ?thesis by (auto simp: obtener_estadisticas_def Let_def)
qed

lemma ejecutar_clave:
  assumes "distinct (map tarea_id t)" and "\<forall>i\<in>set (map tarea_id t). 0 < i"
    and "ejecutar ps t = (rs, t')"
  shows "distinct (map tarea_id t') \<and> (\<forall>i\<in>set (map tarea_id t'). 0 < i)"
  using assms
proof (induction ps arbitrary: t rs t')
  case Nil
  then show ?case by simp
next
  case (Cons p ps)
  obtain r t1 where step: "despachar p t = (r, t1)" by (cases "despachar p t")
  obtain rs1 t2 where rest: "ejecutar ps t1 = (rs1, t2)" by (cases "ejecutar ps t1")
  from step rest Cons.prems(3) have t': "t' = t2" by simp
  from despachar_clave [OF Cons.prems(1,2) step]
  have "distinct (map tarea_id t1)" "\<forall>i\<in>set (map tarea_id t1). 0 < i" by simp_all
  from Cons.IH [OF this rest] t' show ?case by simp
qed

section \<open>The ids a run assigns\<close>

lemma id_asignado_otro: "snd resp \<noteq> 201 \<Longrightarrow> id_asignado resp = []"
  by (cases resp rule: id_asignado.cases) auto

text \<open>
  A request that does not delete the row with the largest id either assigns no id and
  leaves the next rowid as it was, or assigns the next rowid and moves it up by one.
\<close>

lemma despachar_sin_borrar_mayor:
  assumes "\<not> borra_mayor p t" and "despachar p t = (resp, t')"
  shows "(id_asignado resp = [] \<and> next_rowid t' = next_rowid t) \<or>
    (id_asignado resp = [next_rowid t] \<and> next_rowid t' = next_rowid t + 1)"
proof (cases p)
  case GET_tareas
  with assms(2) have "snd resp \<noteq> 201" "t' = t"
    by (auto simp: obtener_tareas_def)
  then show ?thesis by (simp add: id_asignado_otro)
next
  case (GET_tarea i)
  with assms(2) have "obtener_tarea i t = (resp, t')" by simp
  from obtener_tarea_cases [OF this] show ?thesis by (simp add: id_asignado_otro)
next
  case (POST_tareas now datos)
  with assms(2) have "crear_tarea now datos t = (resp, t')" by simp
  from crear_tarea_cases [OF this] show ?thesis
  proof
    assume "t' = t \<and> snd resp \<noteq> 201"
    then show ?thesis by (simp add: id_asignado_otro)
  next
    assume "\<exists>s b. t' = t @ [\<lparr>tarea_id = next_rowid t, texto = s, completada = Some b,
        fecha_creacion = now\<rparr>] \<and>
      resp = (Tarea_json \<lparr>d_id = next_rowid t, d_texto = s, d_completada = Some b,
        d_fecha_creacion = now\<rparr>, 201)"
    then obtain s b where t': "t' = t @ [\<lparr>tarea_id = next_rowid t, texto = s,
        completada = Some b, fecha_creacion = now\<rparr>]"
      and resp: "resp = (Tarea_json \<lparr>d_id = next_rowid t, d_texto = s, d_completada = Some b,
        d_fecha_creacion = now\<rparr>, 201)"
      by blast
    from resp have "id_asignado resp = [next_rowid t]" by simp
    moreover from t' have "next_rowid t' = next_rowid t + 1"
      by (simp add: next_rowid_append)
    ultimately show ?thesis by simp
  qed
next
  case (PUT_tarea i datos)
  with assms(2) have "actualizar_tarea i datos t = (resp, t')" by simp
  from actualizar_tarea_cases [OF this]
  have "snd resp \<noteq> 201" "map tarea_id t' = map tarea_id t" by simp_all
  then show ?thesis
    using next_rowid_cong [of t' t] by (simp add: id_asignado_otro)
next
  case (DELETE_tarea i)
  with assms(2) have elim: "eliminar_tarea i t = (resp, t')" by simp
  from eliminar_tarea_cases [OF elim] have st: "snd resp \<noteq> 201" by simp
  have "next_rowid t' = next_rowid t"
  proof (cases "query_get i t")
    case (Inl e)
    with elim show ?thesis by (simp add: eliminar_tarea_def eliminar_tarea_try_def)
  next
    case (Inr found)
    show ?thesis
    proof (cases found)
      case None
      with Inr elim show ?thesis by (simp add: eliminar_tarea_def eliminar_tarea_try_def)
    next
      case (Some r)
      with Inr elim have t': "t' = delete_tarea r t"
        by (simp add: eliminar_tarea_def eliminar_tarea_try_def)
      from Some Inr have "r \<in> set t" by (simp add: query_get_SomeD)
      moreover from assms(1) DELETE_tarea Some Inr
      have "tarea_id r \<noteq> Max (set (map tarea_id t))"
        by (simp add: borra_mayor_def)
      ultimately show ?thesis
        unfolding t' by (rule next_rowid_delete_tarea)
    qed
  qed
  with st show ?thesis by (simp add: id_asignado_otro)
next
  case GET_estadisticas
  with assms(2) have "snd resp \<noteq> 201" "t' = t"
    by (auto simp: obtener_estadisticas_def Let_def)
  then show ?thesis by (simp add: id_asignado_otro)
qed

lemma ejecutar_sin_borrar_mayor:
  assumes "sin_borrar_mayor ps t" and "ejecutar ps t = (rs, t')"
  shows "sorted_wrt (<) (ids_asignados rs) \<and> (\<forall>i\<in>set (ids_asignados rs). next_rowid t \<le> i)"
  using assms
proof (induction ps arbitrary: t rs t')
  case Nil
  then show ?case by (simp add: ids_asignados_def)
next
  case (Cons p ps)
  obtain r t1 where step: "despachar p t = (r, t1)" by (cases "despachar p t")
  obtain rs1 t2 where rest: "ejecutar ps t1 = (rs1, t2)" by (cases "ejecutar ps t1")
  from step rest Cons.prems(2) have rs: "rs = r # rs1" by simp
  from Cons.prems(1) step have nd: "\<not> borra_mayor p t" "sin_borrar_mayor ps t1"
    by simp_all
  from Cons.IH [OF nd(2) rest]
  have ih: "sorted_wrt (<) (ids_asignados rs1)" "\<forall>i\<in>set (ids_asignados rs1). next_rowid t1 \<le> i"
    by simp_all
  from despachar_sin_borrar_mayor [OF nd(1) step] show ?case
  proof
    assume "id_asignado r = [] \<and> next_rowid t1 = next_rowid t"
    with ih rs show ?thesis by (simp add: ids_asignados_def)
  next
    assume "id_asignado r = [next_rowid t] \<and> next_rowid t1 = next_rowid t + 1"
    with ih rs show ?thesis by (fastforce simp: ids_asignados_def)
  qed
qed

section \<open>Runs of the statistics scenario\<close>

lemma ejecutar_Cons:
  "snd (ejecutar (p # ps) t) = snd (ejecutar ps (snd (despachar p t)))"
  by (simp split: prod.splits)

lemma ejecutar_append:
  "snd (ejecutar (ps @ qs) t) = snd (ejecutar qs (snd (ejecutar ps t)))"
proof (induction ps arbitrary: t)
  case Nil
  show ?case by simp
next
  case (Cons p ps)
  have "snd (ejecutar ((p # ps) @ qs) t) = snd (ejecutar (ps @ qs) (snd (despachar p t)))"
    by (simp only: append_Cons ejecutar_Cons)
  also have "\<dots> = snd (ejecutar qs (snd (ejecutar ps (snd (despachar p t)))))"
    by (rule Cons.IH)
  also have "\<dots> = snd (ejecutar qs (snd (ejecutar (p # ps) t)))"
    by (simp only: ejecutar_Cons)
  finally show ?case .
qed

lemma strip_subset: "set (strip s) \<subseteq> set s"
proof -
  have "set (strip s) \<subseteq> set (dropWhile isspace s)"
    by (auto simp: strip_def dest: set_dropWhileD)
  also have "\<dots> \<subseteq> set s"
    by (auto dest: set_dropWhileD)
  finally show ?thesis .
qed

lemma bind_texto_strip: "\<not> list_ex surrogate s \<Longrightarrow> bind_texto (strip s) = Inr (strip s)"
  using strip_subset [of s] by (auto simp: bind_texto_def list_ex_iff)

lemma crear_solo_texto:
  assumes "strip s \<noteq> []" and "\<not> list_ex surrogate s"
  shows "snd (crear_tarea now (JObj [(lit ''texto'', JStr s)]) t) =
    t @ [\<lparr>tarea_id = next_rowid t, texto = strip s, completada = Some False,
           fecha_creacion = now\<rparr>]"
  using assms
  by (simp add: crear_tarea_def crear_tarea_try_def insert_tarea_def Let_def lit_eq_iff
      bind_texto_strip)

lemma ejecutar_peticiones_crear:
  assumes "\<forall>(now, s)\<in>set xs. strip s \<noteq> [] \<and> \<not> list_ex surrogate s"
  shows "length (snd (ejecutar (peticiones_crear xs) t)) = length t + length xs \<and>
    next_rowid (snd (ejecutar (peticiones_crear xs) t)) = next_rowid t + int (length xs) \<and>
    set (map tarea_id (snd (ejecutar (peticiones_crear xs) t))) =
      set (map tarea_id t) \<union> {next_rowid t ..< next_rowid t + int (length xs)} \<and>
    {r \<in> set (snd (ejecutar (peticiones_crear xs) t)). completada r = Some True} =
      {r \<in> set t. completada r = Some True}"
  using assms
proof (induction xs arbitrary: t)
  case Nil
  then show ?case by (simp add: peticiones_crear_def)
next
  case (Cons x xs)
  obtain now s where x: "x = (now, s)" by (cases x)
  let ?r = "\<lparr>tarea_id = next_rowid t, texto = strip s, completada = Some False,
    fecha_creacion = now\<rparr>"
  let ?t1 = "t @ [?r]"
  from Cons.prems x have s: "strip s \<noteq> []" "\<not> list_ex surrogate s" by simp_all
  have run: "snd (ejecutar (peticiones_crear (x # xs)) t) = snd (ejecutar (peticiones_crear xs) ?t1)"
    using crear_solo_texto [OF s, of now t]
    by (simp add: peticiones_crear_def x ejecutar_Cons del: ejecutar.simps)
  from Cons.prems have "\<forall>(now, s)\<in>set xs. strip s \<noteq> [] \<and> \<not> list_ex surrogate s" by simp
  note ih = Cons.IH [OF this, of ?t1]
  have nr: "next_rowid ?t1 = next_rowid t + 1"
    by (rule next_rowid_append) simp
  show ?case
    unfolding run using ih nr by auto
qed

lemma ids_completadas_reemplazar:
  assumes "tarea_id r' \<in> set (map tarea_id t)" and "completada r' = Some True"
  shows "ids_completadas (reemplazar r' t) = insert (tarea_id r') (ids_completadas t)"
proof -
  have "set (reemplazar r' t) = {x \<in> set t. tarea_id x \<noteq> tarea_id r'} \<union> {r'}"
    using assms(1) by (auto simp: reemplazar_def)
  with assms(2) show ?thesis
    by (auto simp: ids_completadas_def)
qed

lemma completar_una:
  assumes "k \<in> set (map tarea_id t)" and "cabe_en_integer k"
  shows "\<exists>r'. snd (actualizar_tarea k (JObj [(lit ''completada'', JBool True)]) t) =
      reemplazar r' t \<and>
    tarea_id r' = k \<and> completada r' = Some True"
proof -
  from query_get_found [OF assms(2,1)] obtain r where found: "query_get k t = Inr (Some r)"
    by blast
  then have "tarea_id r = k" by (simp add: query_get_SomeD)
  with found show ?thesis
    by (intro exI [of _ "r\<lparr>completada := Some True\<rparr>"])
      (simp add: actualizar_tarea_def actualizar_tarea_try_def asignar_texto_def
        asignar_completada_def update_tarea_same_texto lit_eq_iff)
qed

lemma ejecutar_peticiones_completar:
  assumes "set ks \<subseteq> set (map tarea_id t)" and "list_all cabe_en_integer ks"
  shows "map tarea_id (snd (ejecutar (peticiones_completar ks) t)) = map tarea_id t \<and>
    ids_completadas (snd (ejecutar (peticiones_completar ks) t)) = ids_completadas t \<union> set ks"
  using assms
proof (induction ks arbitrary: t)
  case Nil
  then show ?case by (simp add: peticiones_completar_def)
next
  case (Cons k ks)
  from Cons.prems have k: "k \<in> set (map tarea_id t)" "cabe_en_integer k" by simp_all
  from completar_una [OF k] obtain r' where
    t1: "snd (actualizar_tarea k (JObj [(lit ''completada'', JBool True)]) t) = reemplazar r' t"
    and r': "tarea_id r' = k" "completada r' = Some True"
    by blast
  let ?t1 = "reemplazar r' t"
  have run: "snd (ejecutar (peticiones_completar (k # ks)) t) =
      snd (ejecutar (peticiones_completar ks) ?t1)"
    using t1 by (simp add: peticiones_completar_def ejecutar_Cons del: ejecutar.simps)
  have ids: "map tarea_id ?t1 = map tarea_id t"
    by (rule map_tarea_id_reemplazar)
  with Cons.prems have "set ks \<subseteq> set (map tarea_id ?t1)" "list_all cabe_en_integer ks"
    by simp_all
  note ih = Cons.IH [OF this]
  have "ids_completadas ?t1 = insert k (ids_completadas t)"
    using ids_completadas_reemplazar [of r' t] k r' by simp
  with ih ids show ?case
    unfolding run by auto
qed

lemma length_filter_ids:
  assumes "distinct (map tarea_id t)"
  shows "length (filter P t) = card (tarea_id ` {r \<in> set t. P r})"
proof -
  from assms have d: "distinct t" and inj: "inj_on tarea_id (set t)"
    by (simp_all add: distinct_map)
  have "length (filter P t) = card (set (filter P t))"
    using d distinct_card [of "filter P t"] by simp
  also have "set (filter P t) = {r \<in> set t. P r}" by simp
  also have "card {r \<in> set t. P r} = card (tarea_id ` {r \<in> set t. P r})"
    using inj by (intro card_image [symmetric] inj_on_subset [OF inj]) auto
  finally show ?thesis .
qed

section \<open>The stored texto\<close>

lemma strip_strip: "strip (strip s) = strip s"
proof -
  define a where "a = dropWhile isspace s"
  define b where "b = rev (dropWhile isspace (rev a))"
  have split: "a = b @ rev (takeWhile isspace (rev a))"
  proof -
    have "rev a = takeWhile isspace (rev a) @ dropWhile isspace (rev a)"
      by simp
    then have "rev (rev a) = rev (takeWhile isspace (rev a) @ dropWhile isspace (rev a))"
      by (rule arg_cong)
    then show ?thesis by (simp only: rev_rev_ident rev_append b_def)
  qed
  have front: "dropWhile isspace b = b"
  proof (cases "b = []")
    case True
    then show ?thesis by simp
  next
    case False
    with split have "hd b = hd a" and "a \<noteq> []"
      by (metis hd_append2, metis append_is_Nil_conv)
    then have "\<not> isspace (hd b)"
      using hd_dropWhile [of isspace s] by (simp add: a_def)
    then show ?thesis by (simp add: dropWhile_eq_self_iff)
  qed
  have b: "strip s = b"
    by (simp only: strip_def a_def b_def)
  have "strip b = rev (dropWhile isspace (rev (dropWhile isspace b)))"
    by (simp only: strip_def)
  also have "\<dots> = rev (dropWhile isspace (rev b))"
    by (simp only: front)
  also have "\<dots> = rev (dropWhile isspace (dropWhile isspace (rev a)))"
    by (simp only: b_def rev_rev_ident)
  also have "\<dots> = b"
    by (simp only: dropWhile_idem b_def)
  finally show ?thesis by (simp only: b)
qed

lemma py_strip_stripped: "py_strip v = Inr s \<Longrightarrow> strip s = s"
  by (cases v) (auto simp: strip_strip)

text \<open>
  A create and a delete keep every stored \<open>texto\<close> non-blank; the update is the
  handler that does not (see C1).
\<close>

lemma crear_tarea_texto:
  assumes "list_all (\<lambda>r. strip (texto r) \<noteq> []) t" and "crear_tarea now datos t = (resp, t')"
  shows "list_all (\<lambda>r. strip (texto r) \<noteq> []) t'"
  using assms
  by (auto simp: crear_tarea_def crear_tarea_try_def insert_tarea_def Let_def bind_texto_def
      dest: py_strip_stripped split: sum.splits if_splits)

lemma eliminar_tarea_texto:
  assumes "list_all (\<lambda>r. strip (texto r) \<noteq> []) t" and "eliminar_tarea i t = (resp, t')"
  shows "list_all (\<lambda>r. strip (texto r) \<noteq> []) t'"
  using assms
  by (auto simp: eliminar_tarea_def eliminar_tarea_try_def delete_tarea_def list_all_iff
      split: sum.splits option.splits)

section \<open>The claims\<close>

text \<open>
  C1. The claim: after any sequence of requests from the empty table, every stored
  \<open>texto\<close> is non-empty after stripping, and in particular no PUT leaves a blank
  \<open>texto\<close>. \<open>crear_tarea\<close> checks this (lines 119 and 120); \<open>actualizar_tarea\<close>
  stores \<open>datos['texto'].strip()\<close> unchecked (lines 155 and 156). The run below
  creates a task and then PUTs \<open>{"texto": "   "}\<close> on it: the PUT answers 200 and
  the stored \<open>texto\<close> is the empty string.
\<close>

theorem C1_put_texto_en_blanco:
  "ejecutar [POST_tareas 0 (JObj [(lit ''texto'', JStr (lit ''a''))]),
             PUT_tarea 1 (JObj [(lit ''texto'', JStr (lit ''   ''))])] [] =
    ([(Tarea_json \<lparr>d_id = 1, d_texto = lit ''a'', d_completada = Some False,
         d_fecha_creacion = 0\<rparr>, 201),
      (Tarea_json \<lparr>d_id = 1, d_texto = [], d_completada = Some False,
         d_fecha_creacion = 0\<rparr>, 200)],
     [\<lparr>tarea_id = 1, texto = [], completada = Some False, fecha_creacion = 0\<rparr>])"
  by code_simp

text \<open>
  C2. The claim: in every sequence of creates and deletes, the id a create assigns
  differs from every id assigned before it. The run below creates a task (id 1),
  deletes it and creates another: id 1 is assigned twice.
\<close>

theorem C2_id_reutilizado:
  "\<not> distinct (ids_asignados (fst (ejecutar
      [POST_tareas 0 (JObj [(lit ''texto'', JStr (lit ''a''))]), DELETE_tarea 1,
       POST_tareas 1 (JObj [(lit ''texto'', JStr (lit ''b''))])] [])))"
  by code_simp

text \<open>
  C2, as amended. In every table reached from the empty one by any sequence of
  requests, a successful create assigns a positive id greater than the id of every task
  stored at that moment, so the ids of the stored tasks stay pairwise distinct; and in
  every sequence of requests from the empty table in which no DELETE removes the task
  that has the largest id at that moment, the ids assigned are strictly increasing, so
  each differs from every id assigned before it.
\<close>

theorem C2_id_nuevo_mayor:
  assumes "ejecutar ps [] = (rs, t)"
  shows "(\<forall>now datos d t'. crear_tarea now datos t = ((Tarea_json d, 201), t') \<longrightarrow>
            0 < d_id d \<and> (\<forall>r\<in>set t. tarea_id r < d_id d) \<and> distinct (map tarea_id t')) \<and>
         (sin_borrar_mayor ps [] \<longrightarrow> sorted_wrt (<) (ids_asignados rs))"
proof -
  have clave: "distinct (map tarea_id t)" "\<forall>i\<in>set (map tarea_id t). 0 < i"
    using ejecutar_clave [OF _ _ assms] by simp_all
  have "0 < d_id d \<and> (\<forall>r\<in>set t. tarea_id r < d_id d) \<and> distinct (map tarea_id t')"
    if "crear_tarea now datos t = ((Tarea_json d, 201), t')" for now datos d t'
  proof -
    from crear_tarea_cases [OF that]
    have d: "d_id d = next_rowid t" and t': "map tarea_id t' = map tarea_id t @ [next_rowid t]"
      by auto
    have "0 < next_rowid t"
      using clave(2) by (intro next_rowid_positive) (simp add: list_all_iff)
    with d t' clave(1) next_rowid_fresh [of t] next_rowid_greater [of _ t]
    show ?thesis by auto
  qed
  moreover have "sorted_wrt (<) (ids_asignados rs)" if "sin_borrar_mayor ps []"
    using ejecutar_sin_borrar_mayor [OF that assms] by simp
  ultimately show ?thesis by blast
qed

theorem C2_id_nuevo_mayor_witness:
  "(\<exists>d t'. crear_tarea 2 (JObj [(lit ''texto'', JStr (lit ''c''))])
       (snd (ejecutar [POST_tareas 0 (JObj [(lit ''texto'', JStr (lit ''a''))]), DELETE_tarea 1,
          POST_tareas 1 (JObj [(lit ''texto'', JStr (lit ''b''))])] [])) =
       ((Tarea_json d, 201), t') \<and>
     0 < d_id d \<and> d_id d = 2 \<and> distinct (map tarea_id t')) \<and>
   sin_borrar_mayor
     [POST_tareas 0 (JObj [(lit ''texto'', JStr (lit ''a''))]),
      POST_tareas 1 (JObj [(lit ''texto'', JStr (lit ''b''))]),
      POST_tareas 2 (JObj [(lit ''texto'', JStr (lit ''c''))]),
      DELETE_tarea 2,
      POST_tareas 3 (JObj [(lit ''texto'', JStr (lit ''d''))])] [] \<and>
   sorted_wrt (<) (ids_asignados (fst (ejecutar
     [POST_tareas 0 (JObj [(lit ''texto'', JStr (lit ''a''))]),
      POST_tareas 1 (JObj [(lit ''texto'', JStr (lit ''b''))]),
      POST_tareas 2 (JObj [(lit ''texto'', JStr (lit ''c''))]),
      DELETE_tarea 2,
      POST_tareas 3 (JObj [(lit ''texto'', JStr (lit ''d''))])] []))) \<and>
   ids_asignados (fst (ejecutar
     [POST_tareas 0 (JObj [(lit ''texto'', JStr (lit ''a''))]),
      POST_tareas 1 (JObj [(lit ''texto'', JStr (lit ''b''))]),
      POST_tareas 2 (JObj [(lit ''texto'', JStr (lit ''c''))]),
      DELETE_tarea 2,
      POST_tareas 3 (JObj [(lit ''texto'', JStr (lit ''d''))])] [])) = [1, 2, 3, 4]"
proof -
  let ?ps = "[POST_tareas 0 (JObj [(lit ''texto'', JStr (lit ''a''))]), DELETE_tarea 1,
    POST_tareas 1 (JObj [(lit ''texto'', JStr (lit ''b''))])]"
  let ?qs = "[POST_tareas 0 (JObj [(lit ''texto'', JStr (lit ''a''))]),
      POST_tareas 1 (JObj [(lit ''texto'', JStr (lit ''b''))]),
      POST_tareas 2 (JObj [(lit ''texto'', JStr (lit ''c''))]),
      DELETE_tarea 2,
      POST_tareas 3 (JObj [(lit ''texto'', JStr (lit ''d''))])]"
  let ?t = "[\<lparr>tarea_id = 1, texto = lit ''b'', completada = Some False, fecha_creacion = 1\<rparr>]"
  let ?d = "\<lparr>d_id = 2, d_texto = lit ''c'', d_completada = Some False, d_fecha_creacion = 2\<rparr>"
  let ?t' = "?t @ [\<lparr>tarea_id = 2, texto = lit ''c'', completada = Some False,
    fecha_creacion = 2\<rparr>]"
  have run: "snd (ejecutar ?ps []) = ?t"
    by code_simp
  have crear: "crear_tarea 2 (JObj [(lit ''texto'', JStr (lit ''c''))]) ?t =
      ((Tarea_json ?d, 201), ?t')"
    by code_simp
  have "ejecutar ?ps [] = (fst (ejecutar ?ps []), ?t)"
    using run by (metis prod.collapse)
  from C2_id_nuevo_mayor [OF this] crear
  have "0 < d_id ?d \<and> distinct (map tarea_id ?t')"
    by blast
  with crear run have first: "\<exists>d t'. crear_tarea 2 (JObj [(lit ''texto'', JStr (lit ''c''))])
       (snd (ejecutar ?ps [])) = ((Tarea_json d, 201), t') \<and>
     0 < d_id d \<and> d_id d = 2 \<and> distinct (map tarea_id t')"
    by (intro exI [of _ ?d] exI [of _ ?t']) simp
  have sin: "sin_borrar_mayor ?qs []"
    by code_simp
  have "ejecutar ?qs [] = (fst (ejecutar ?qs []), snd (ejecutar ?qs []))"
    by simp
  from C2_id_nuevo_mayor [OF this] sin
  have sorted: "sorted_wrt (<) (ids_asignados (fst (ejecutar ?qs [])))"
    by blast
  have ids: "ids_asignados (fst (ejecutar ?qs [])) = [1, 2, 3, 4]"
    by code_simp
  from first sin sorted ids show ?thesis by blast
qed

text \<open>
  C3. The claim: every POST whose JSON body lacks the key \<open>texto\<close> answers 400.
  A body that is a number other than zero or is \<open>true\<close> has no keys, and a string
  or a list that holds \<open>texto\<close> passes the test of line 116 without being a dict:
  each raises a \<open>TypeError\<close> at line 116 or 119, which the handler answers with 500.
\<close>

theorem C3_cuerpo_no_dict_500:
  "crear_tarea 0 (JInt 5) [] = ((Error_json (Str_excepcion TypeError), 500), []) \<and>
   crear_tarea 0 (JBool True) [] = ((Error_json (Str_excepcion TypeError), 500), []) \<and>
   crear_tarea 0 (JFloat (3 / 2)) [] = ((Error_json (Str_excepcion TypeError), 500), []) \<and>
   crear_tarea 0 (JStr (lit ''texto'')) [] = ((Error_json (Str_excepcion TypeError), 500), []) \<and>
   crear_tarea 0 (JArr [JStr (lit ''texto'')]) [] =
     ((Error_json (Str_excepcion TypeError), 500), [])"
  by code_simp

text \<open>
  C3, as amended. A POST to \<open>/api/tareas\<close> answers 400 with the error "Falta el
  campo 'texto'" when its body is falsy (\<open>null\<close>, \<open>false\<close>, zero, the empty string,
  list or object), is an object without the key \<open>texto\<close>, is a list without the
  element \<open>texto\<close> or is a string without the substring \<open>texto\<close>; it answers 400
  with the error "El texto no puede estar vacio" when its body is an object whose
  \<open>texto\<close> is a string that strips to the empty string. In all these cases the table,
  and so the number of stored tasks, is the one before the request. Every other body
  without the key is answered 500 with the table unchanged: a number other than zero,
  \<open>true\<close>, a list with the element \<open>texto\<close>, a string with the substring \<open>texto\<close>.
\<close>

theorem C3_crear_sin_texto_400:
  "(\<not> truthy datos \<longrightarrow>
      crear_tarea now datos t = ((Error_json Falta_el_campo_texto, 400), t)) \<and>
   (map_of kvs (lit ''texto'') = None \<longrightarrow>
      crear_tarea now (JObj kvs) t = ((Error_json Falta_el_campo_texto, 400), t)) \<and>
   (JStr (lit ''texto'') \<notin> set xs \<longrightarrow>
      crear_tarea now (JArr xs) t = ((Error_json Falta_el_campo_texto, 400), t)) \<and>
   (\<not> sublist (lit ''texto'') u \<longrightarrow>
      crear_tarea now (JStr u) t = ((Error_json Falta_el_campo_texto, 400), t)) \<and>
   (map_of kvs (lit ''texto'') = Some (JStr s) \<and> strip s = [] \<longrightarrow>
      crear_tarea now (JObj kvs) t = ((Error_json El_texto_no_puede_estar_vacio, 400), t)) \<and>
   (n \<noteq> 0 \<longrightarrow>
      crear_tarea now (JInt n) t = ((Error_json (Str_excepcion TypeError), 500), t)) \<and>
   (f \<noteq> 0 \<longrightarrow>
      crear_tarea now (JFloat f) t = ((Error_json (Str_excepcion TypeError), 500), t)) \<and>
   crear_tarea now (JBool True) t = ((Error_json (Str_excepcion TypeError), 500), t) \<and>
   (JStr (lit ''texto'') \<in> set xs \<longrightarrow>
      crear_tarea now (JArr xs) t = ((Error_json (Str_excepcion TypeError), 500), t)) \<and>
   (sublist (lit ''texto'') u \<longrightarrow>
      crear_tarea now (JStr u) t = ((Error_json (Str_excepcion TypeError), 500), t))"
proof -
  have falsy: "crear_tarea now datos t = ((Error_json Falta_el_campo_texto, 400), t)"
    if "\<not> truthy datos"
    using that by (simp add: crear_tarea_def crear_tarea_try_def)
  have objeto: "crear_tarea now (JObj kvs) t = ((Error_json Falta_el_campo_texto, 400), t)"
    if "map_of kvs (lit ''texto'') = None"
    using that by (simp add: crear_tarea_def crear_tarea_try_def)
  have lista: "crear_tarea now (JArr xs) t = ((Error_json Falta_el_campo_texto, 400), t)"
    if "JStr (lit ''texto'') \<notin> set xs"
    using that by (simp add: crear_tarea_def crear_tarea_try_def)
  have cadena: "crear_tarea now (JStr u) t = ((Error_json Falta_el_campo_texto, 400), t)"
    if "\<not> sublist (lit ''texto'') u"
    using that by (simp add: crear_tarea_def crear_tarea_try_def)
  have vacio: "crear_tarea now (JObj kvs) t =
      ((Error_json El_texto_no_puede_estar_vacio, 400), t)"
    if "map_of kvs (lit ''texto'') = Some (JStr s) \<and> strip s = []"
  proof -
    from that have "kvs \<noteq> []" by auto
    with that show ?thesis by (simp add: crear_tarea_def crear_tarea_try_def)
  qed
  have entero: "crear_tarea now (JInt n) t = ((Error_json (Str_excepcion TypeError), 500), t)"
    if "n \<noteq> 0"
    using that by (simp add: crear_tarea_def crear_tarea_try_def)
  have flotante: "crear_tarea now (JFloat f) t =
      ((Error_json (Str_excepcion TypeError), 500), t)"
    if "f \<noteq> 0"
    using that by (simp add: crear_tarea_def crear_tarea_try_def)
  have verdadero: "crear_tarea now (JBool True) t =
      ((Error_json (Str_excepcion TypeError), 500), t)"
    by (simp add: crear_tarea_def crear_tarea_try_def)
  have lista_con: "crear_tarea now (JArr xs) t =
      ((Error_json (Str_excepcion TypeError), 500), t)"
    if "JStr (lit ''texto'') \<in> set xs"
  proof -
    from that have "xs \<noteq> []" by auto
    with that show ?thesis by (simp add: crear_tarea_def crear_tarea_try_def)
  qed
  have cadena_con: "crear_tarea now (JStr u) t =
      ((Error_json (Str_excepcion TypeError), 500), t)"
    if "sublist (lit ''texto'') u"
  proof -
    have "lit ''texto'' \<noteq> []" by (simp add: lit_def)
    with that have "u \<noteq> []" by auto
    with that show ?thesis by (simp add: crear_tarea_def crear_tarea_try_def)
  qed
  from falsy objeto lista cadena vacio entero flotante verdadero lista_con cadena_con
  show ?thesis by blast
qed

theorem C3_crear_sin_texto_400_witness:
  "crear_tarea 0 JNull [] = ((Error_json Falta_el_campo_texto, 400), []) \<and>
   crear_tarea 0 (JObj []) [] = ((Error_json Falta_el_campo_texto, 400), []) \<and>
   crear_tarea 0 (JObj [(lit ''completada'', JBool True)]) [] =
     ((Error_json Falta_el_campo_texto, 400), []) \<and>
   crear_tarea 0 (JArr [JInt 1]) [] = ((Error_json Falta_el_campo_texto, 400), []) \<and>
   crear_tarea 0 (JStr (lit ''abc'')) [] = ((Error_json Falta_el_campo_texto, 400), []) \<and>
   crear_tarea 0 (JObj [(lit ''texto'', JStr (lit ''   ''))]) [] =
     ((Error_json El_texto_no_puede_estar_vacio, 400), []) \<and>
   crear_tarea 0 (JObj [(lit ''texto'', JStr [12288, 8195, 32])]) [] =
     ((Error_json El_texto_no_puede_estar_vacio, 400), []) \<and>
   crear_tarea 0 (JInt 5) [] = ((Error_json (Str_excepcion TypeError), 500), []) \<and>
   crear_tarea 0 (JStr (lit ''el texto'')) [] =
     ((Error_json (Str_excepcion TypeError), 500), [])"
proof -
  have h1: "\<not> truthy JNull" by simp
  have h2: "map_of ([] :: (pystr \<times> json) list) (lit ''texto'') = None" by simp
  have h3: "map_of [(lit ''completada'', JBool True)] (lit ''texto'') = None"
    by (simp add: lit_eq_iff)
  have h4: "JStr (lit ''texto'') \<notin> set [JInt 1]" by simp
  have h5: "\<not> sublist (lit ''texto'') (lit ''abc'')" by code_simp
  have h6: "map_of [(lit ''texto'', JStr (lit ''   ''))] (lit ''texto'') =
      Some (JStr (lit ''   '')) \<and> strip (lit ''   '') = []"
    by code_simp
  have h7: "map_of [(lit ''texto'', JStr [12288, 8195, 32])] (lit ''texto'') =
      Some (JStr [12288, 8195, 32]) \<and> strip [12288, 8195, 32] = []"
    by (simp add: strip_def isspace_def)
  have h8: "(5::int) \<noteq> 0" by simp
  have h9: "sublist (lit ''texto'') (lit ''el texto'')" by code_simp
  note c = C3_crear_sin_texto_400
  from c [where datos = JNull and now = 0 and t = "[]"] h1
  have "crear_tarea 0 JNull [] = ((Error_json Falta_el_campo_texto, 400), [])" by blast
  moreover from c [where kvs = "[]" and now = 0 and t = "[]"] h2
  have "crear_tarea 0 (JObj []) [] = ((Error_json Falta_el_campo_texto, 400), [])" by blast
  moreover from c [where kvs = "[(lit ''completada'', JBool True)]" and now = 0 and t = "[]"] h3
  have "crear_tarea 0 (JObj [(lit ''completada'', JBool True)]) [] =
     ((Error_json Falta_el_campo_texto, 400), [])" by blast
  moreover from c [where xs = "[JInt 1]" and now = 0 and t = "[]"] h4
  have "crear_tarea 0 (JArr [JInt 1]) [] = ((Error_json Falta_el_campo_texto, 400), [])"
    by blast
  moreover from c [where u = "lit ''abc''" and now = 0 and t = "[]"] h5
  have "crear_tarea 0 (JStr (lit ''abc'')) [] = ((Error_json Falta_el_campo_texto, 400), [])"
    by blast
  moreover from c [where kvs = "[(lit ''texto'', JStr (lit ''   ''))]" and s = "lit ''   ''"
      and now = 0 and t = "[]"] h6
  have "crear_tarea 0 (JObj [(lit ''texto'', JStr (lit ''   ''))]) [] =
     ((Error_json El_texto_no_puede_estar_vacio, 400), [])" by blast
  moreover from c [where kvs = "[(lit ''texto'', JStr [12288, 8195, 32])]"
      and s = "[12288, 8195, 32]" and now = 0 and t = "[]"] h7
  have "crear_tarea 0 (JObj [(lit ''texto'', JStr [12288, 8195, 32])]) [] =
     ((Error_json El_texto_no_puede_estar_vacio, 400), [])" by blast
  moreover from c [where n = 5 and now = 0 and t = "[]"] h8
  have "crear_tarea 0 (JInt 5) [] = ((Error_json (Str_excepcion TypeError), 500), [])"
    by blast
  moreover from c [where u = "lit ''el texto''" and now = 0 and t = "[]"] h9
  have "crear_tarea 0 (JStr (lit ''el texto'')) [] =
     ((Error_json (Str_excepcion TypeError), 500), [])" by blast
  ultimately show ?thesis by blast
qed

text \<open>
  C4. The claim: for every id that is not in the table, GET, PUT and DELETE answer
  404. The route passes any number written in digits; for the id \<open>2 ^ 63\<close>, which is
  in no table, the lookup raises \<open>OverflowError\<close> and each handler answers 500.
\<close>

theorem C4_id_enorme_500:
  "9223372036854775808 \<notin> set (map tarea_id []) \<and>
   obtener_tarea 9223372036854775808 [] =
     ((Error_json (Str_excepcion OverflowError), 500), []) \<and>
   actualizar_tarea 9223372036854775808 (JObj [(lit ''completada'', JBool True)]) [] =
     ((Error_json (Str_excepcion OverflowError), 500), []) \<and>
   eliminar_tarea 9223372036854775808 [] =
     ((Error_json (Str_excepcion OverflowError), 500), [])"
  by (simp add: obtener_tarea_def obtener_tarea_try_def actualizar_tarea_def
      actualizar_tarea_try_def eliminar_tarea_def eliminar_tarea_try_def query_get_def
      cabe_en_integer_def)

text \<open>
  C4, as amended. For an id that no row of the table has and that fits an SQLite
  integer (for the ids the route passes: one below \<open>2 ^ 63\<close>), GET, PUT (whatever its
  body) and DELETE on \<open>/api/tareas/id\<close> answer 404 with the error body "Tarea no
  encontrada"; for an id that does not fit, each answers 500 with the error body of the
  \<open>OverflowError\<close>. In both cases the table after the request is the table before it.
\<close>

theorem C4_id_ausente_404:
  assumes "i \<notin> set (map tarea_id t)"
  shows "(cabe_en_integer i \<longrightarrow>
      obtener_tarea i t = ((Error_json Tarea_no_encontrada, 404), t) \<and>
      actualizar_tarea i datos t = ((Error_json Tarea_no_encontrada, 404), t) \<and>
      eliminar_tarea i t = ((Error_json Tarea_no_encontrada, 404), t)) \<and>
    (\<not> cabe_en_integer i \<longrightarrow>
      obtener_tarea i t = ((Error_json (Str_excepcion OverflowError), 500), t) \<and>
      actualizar_tarea i datos t = ((Error_json (Str_excepcion OverflowError), 500), t) \<and>
      eliminar_tarea i t = ((Error_json (Str_excepcion OverflowError), 500), t))"
proof (cases "cabe_en_integer i")
  case True
  with assms have none: "query_get i t = Inr None"
    by (simp add: query_get_None_iff)
  have "obtener_tarea i t = ((Error_json Tarea_no_encontrada, 404), t)"
    by (simp add: obtener_tarea_def obtener_tarea_try_def none)
  moreover have "actualizar_tarea i datos t = ((Error_json Tarea_no_encontrada, 404), t)"
    by (simp add: actualizar_tarea_def actualizar_tarea_try_def none)
  moreover have "eliminar_tarea i t = ((Error_json Tarea_no_encontrada, 404), t)"
    by (simp add: eliminar_tarea_def eliminar_tarea_try_def none)
  ultimately show ?thesis using True by simp
next
  case False
  then have raise: "query_get i t = Inl OverflowError"
    by (simp add: query_get_def)
  have "obtener_tarea i t = ((Error_json (Str_excepcion OverflowError), 500), t)"
    by (simp add: obtener_tarea_def obtener_tarea_try_def raise)
  moreover have "actualizar_tarea i datos t =
      ((Error_json (Str_excepcion OverflowError), 500), t)"
    by (simp add: actualizar_tarea_def actualizar_tarea_try_def raise)
  moreover have "eliminar_tarea i t = ((Error_json (Str_excepcion OverflowError), 500), t)"
    by (simp add: eliminar_tarea_def eliminar_tarea_try_def raise)
  ultimately show ?thesis using False by simp
qed

theorem C4_id_ausente_404_witness:
  "obtener_tarea 999999 [] = ((Error_json Tarea_no_encontrada, 404), []) \<and>
   actualizar_tarea 999999 (JObj [(lit ''completada'', JBool True)]) [] =
     ((Error_json Tarea_no_encontrada, 404), []) \<and>
   eliminar_tarea 999999 [] = ((Error_json Tarea_no_encontrada, 404), []) \<and>
   obtener_tarea (2 ^ 63) [] = ((Error_json (Str_excepcion OverflowError), 500), []) \<and>
   actualizar_tarea (2 ^ 63) (JObj [(lit ''completada'', JBool True)]) [] =
     ((Error_json (Str_excepcion OverflowError), 500), []) \<and>
   eliminar_tarea (2 ^ 63) [] = ((Error_json (Str_excepcion OverflowError), 500), [])"
proof -
  have fits: "cabe_en_integer 999999" and big: "\<not> cabe_en_integer (2 ^ 63)"
    by (simp_all add: cabe_en_integer_def)
  have absent: "999999 \<notin> set (map tarea_id [])" "2 ^ 63 \<notin> set (map tarea_id [])"
    by simp_all
  from C4_id_ausente_404 [OF absent(1), of "JObj [(lit ''completada'', JBool True)]"] fits
    C4_id_ausente_404 [OF absent(2), of "JObj [(lit ''completada'', JBool True)]"] big
  show ?thesis by blast
qed

text \<open>
  C5. On a task that exists, a PUT whose body has the key \<open>completada\<close> and no
  other leaves the task's \<open>id\<close>, \<open>texto\<close> and \<open>fecha_creacion\<close> as they were,
  and every row with another id as it was, at its place; the ids of the table are the
  same. When the value is a JSON boolean the PUT answers 200 with the task, whose
  \<open>completada\<close> is that boolean. (A value the Boolean column refuses answers 500 and
  changes nothing.)
\<close>

theorem C5_put_solo_completada:
  assumes found: "query_get i t = Inr (Some r)"
  shows "\<exists>r' t' resp. actualizar_tarea i (JObj [(lit ''completada'', v)]) t = (resp, t') \<and>
    query_get i t' = Inr (Some r') \<and>
    tarea_id r' = tarea_id r \<and> texto r' = texto r \<and> fecha_creacion r' = fecha_creacion r \<and>
    map tarea_id t' = map tarea_id t \<and>
    (\<forall>j. j \<noteq> i \<longrightarrow> query_get j t' = query_get j t) \<and>
    (\<forall>n<length t. tarea_id (t ! n) \<noteq> i \<longrightarrow> t' ! n = t ! n) \<and>
    (\<forall>b. v = JBool b \<longrightarrow> completada r' = Some b \<and> resp = (Tarea_json (to_dict r'), 200))"
proof -
  let ?datos = "JObj [(lit ''completada'', v)]"
  from found have id: "tarea_id r = i" by (simp add: query_get_SomeD)
  have tx: "asignar_texto ?datos r = Inr r"
    by (simp add: asignar_texto_def lit_eq_iff)
  show ?thesis
  proof (cases "bind_boolean v")
    case (Inl e)
    then have "actualizar_tarea i ?datos t = ((Error_json (Str_excepcion e), 500), t)"
      by (simp add: actualizar_tarea_def actualizar_tarea_try_def found tx asignar_completada_def)
    moreover from Inl have "\<forall>b. v \<noteq> JBool b" by auto
    ultimately show ?thesis using found by auto
  next
    case (Inr c)
    let ?r' = "r\<lparr>completada := c\<rparr>"
    let ?t' = "reemplazar ?r' t"
    have "update_tarea r ?r' t = Inr ?t'"
      by (rule update_tarea_same_texto) simp
    then have "actualizar_tarea i ?datos t = ((Tarea_json (to_dict ?r'), 200), ?t')"
      by (simp add: actualizar_tarea_def actualizar_tarea_try_def found tx asignar_completada_def Inr)
    moreover have "query_get i ?t' = Inr (Some ?r')"
      using found by (rule query_get_reemplazar) (simp add: id)
    moreover have "map tarea_id ?t' = map tarea_id t"
      by (rule map_tarea_id_reemplazar)
    moreover have "\<forall>j. j \<noteq> i \<longrightarrow> query_get j ?t' = query_get j t"
      by (simp add: query_get_reemplazar_other id)
    moreover have "\<forall>n<length t. tarea_id (t ! n) \<noteq> i \<longrightarrow> ?t' ! n = t ! n"
      by (simp add: nth_reemplazar id)
    moreover from Inr have "\<forall>b. v = JBool b \<longrightarrow> completada ?r' = Some b" by auto
    ultimately show ?thesis by auto
  qed
qed

theorem C5_put_solo_completada_witness:
  "query_get 1
     [\<lparr>tarea_id = 1, texto = lit ''Buy milk'', completada = Some False, fecha_creacion = 0\<rparr>,
      \<lparr>tarea_id = 2, texto = lit ''b'', completada = Some False, fecha_creacion = 1\<rparr>] =
     Inr (Some \<lparr>tarea_id = 1, texto = lit ''Buy milk'', completada = Some False,
       fecha_creacion = 0\<rparr>) \<and>
   (\<exists>r' t' resp. actualizar_tarea 1 (JObj [(lit ''completada'', JBool True)])
       [\<lparr>tarea_id = 1, texto = lit ''Buy milk'', completada = Some False, fecha_creacion = 0\<rparr>,
        \<lparr>tarea_id = 2, texto = lit ''b'', completada = Some False, fecha_creacion = 1\<rparr>] =
       (resp, t') \<and>
     query_get 1 t' = Inr (Some r') \<and> tarea_id r' = 1 \<and> texto r' = lit ''Buy milk'' \<and>
     fecha_creacion r' = 0 \<and> completada r' = Some True \<and>
     resp = (Tarea_json (to_dict r'), 200) \<and>
     query_get 2 t' =
       Inr (Some \<lparr>tarea_id = 2, texto = lit ''b'', completada = Some False,
         fecha_creacion = 1\<rparr>))"
proof -
  let ?r1 = "\<lparr>tarea_id = 1, texto = lit ''Buy milk'', completada = Some False,
    fecha_creacion = 0\<rparr>"
  let ?r2 = "\<lparr>tarea_id = 2, texto = lit ''b'', completada = Some False, fecha_creacion = 1\<rparr>"
  have found: "query_get 1 [?r1, ?r2] = Inr (Some ?r1)"
    by (simp add: query_get_def cabe_en_integer_def)
  have other: "query_get 2 [?r1, ?r2] = Inr (Some ?r2)"
    by (simp add: query_get_def cabe_en_integer_def)
  from C5_put_solo_completada [OF found, of "JBool True"]
  obtain r' t' resp where
    "actualizar_tarea 1 (JObj [(lit ''completada'', JBool True)]) [?r1, ?r2] = (resp, t')"
    "query_get 1 t' = Inr (Some r')" "tarea_id r' = tarea_id ?r1" "texto r' = texto ?r1"
    "fecha_creacion r' = fecha_creacion ?r1"
    "\<forall>j. j \<noteq> 1 \<longrightarrow> query_get j t' = query_get j [?r1, ?r2]"
    "completada r' = Some True" "resp = (Tarea_json (to_dict r'), 200)"
    by auto
  with other have "actualizar_tarea 1 (JObj [(lit ''completada'', JBool True)]) [?r1, ?r2] =
       (resp, t') \<and>
     query_get 1 t' = Inr (Some r') \<and> tarea_id r' = 1 \<and> texto r' = lit ''Buy milk'' \<and>
     fecha_creacion r' = 0 \<and> completada r' = Some True \<and>
     resp = (Tarea_json (to_dict r'), 200) \<and> query_get 2 t' = Inr (Some ?r2)"
    by simp
  with found show ?thesis by blast
qed

text \<open>
  C6. For every table, GET \<open>/api/estadisticas\<close> answers 200 with \<open>total\<close> the
  number of rows, \<open>completadas\<close> the number of rows whose \<open>completada\<close> is true and
  \<open>pendientes\<close> their difference, and leaves the table as it is. In particular,
  from the empty table, after N creates of tasks, each with a text that is stored (it
  is non-blank and holds no surrogate), and then PUTs of \<open>{"completada": true}\<close> on
  K different ones of them (ids among 1 to N, each fitting an SQLite integer), it
  answers total N, completadas K and pendientes N - K.
\<close>

theorem C6_estadisticas:
  "obtener_estadisticas t =
     ((Estadisticas_json (int (length t))
         (int (length (filter (\<lambda>r. completada r = Some True) t)))
         (int (length t) - int (length (filter (\<lambda>r. completada r = Some True) t))), 200), t) \<and>
   ((\<forall>(now, s)\<in>set xs. strip s \<noteq> [] \<and> \<not> list_ex surrogate s) \<and>
    distinct ks \<and> set ks \<subseteq> {1..int (length xs)} \<and> list_all cabe_en_integer ks \<longrightarrow>
      fst (obtener_estadisticas
        (snd (ejecutar (peticiones_crear xs @ peticiones_completar ks) []))) =
      (Estadisticas_json (int (length xs)) (int (length ks))
         (int (length xs) - int (length ks)), 200))"
proof -
  have general: "obtener_estadisticas t =
     ((Estadisticas_json (int (length t))
         (int (length (filter (\<lambda>r. completada r = Some True) t)))
         (int (length t) - int (length (filter (\<lambda>r. completada r = Some True) t))), 200), t)" for t
    by (simp add: obtener_estadisticas_def Let_def)
  have scenario: "fst (obtener_estadisticas
        (snd (ejecutar (peticiones_crear xs @ peticiones_completar ks) []))) =
      (Estadisticas_json (int (length xs)) (int (length ks))
         (int (length xs) - int (length ks)), 200)"
    if textos: "\<forall>(now, s)\<in>set xs. strip s \<noteq> [] \<and> \<not> list_ex surrogate s"
      and dks: "distinct ks"
      and sub: "set ks \<subseteq> {1..int (length xs)}"
      and caben: "list_all cabe_en_integer ks"
  proof -
    let ?t0 = "snd (ejecutar (peticiones_crear xs) [])"
    let ?t1 = "snd (ejecutar (peticiones_completar ks) ?t0)"
    from ejecutar_peticiones_crear [OF textos, of "[]"]
    have len0: "length ?t0 = length xs"
      and ids0: "set (map tarea_id ?t0) = {1 ..< 1 + int (length xs)}"
      and comp0: "{r \<in> set ?t0. completada r = Some True} = {}"
      by (simp_all add: next_rowid_def)
    from sub ids0 have "set ks \<subseteq> set (map tarea_id ?t0)" by auto
    from ejecutar_peticiones_completar [OF this caben]
    have ids1: "map tarea_id ?t1 = map tarea_id ?t0"
      and comp1: "ids_completadas ?t1 = ids_completadas ?t0 \<union> set ks"
      by simp_all
    have "ids_completadas ?t0 = {}"
      by (simp only: ids_completadas_def comp0 image_empty)
    with comp1 have comp: "ids_completadas ?t1 = set ks" by simp
    have "distinct (map tarea_id ?t0)"
      using ejecutar_clave [of "[]" "peticiones_crear xs" "fst (ejecutar (peticiones_crear xs) [])" ?t0]
      by simp
    with ids1 have "distinct (map tarea_id ?t1)" by simp
    from length_filter_ids [OF this, of "\<lambda>r. completada r = Some True"] comp dks
    have k: "length (filter (\<lambda>r. completada r = Some True) ?t1) = length ks"
      by (simp add: ids_completadas_def distinct_card)
    from ids1 have "length ?t1 = length ?t0" by (rule map_eq_imp_length_eq)
    with len0 have n: "length ?t1 = length xs" by simp
    show ?thesis
      by (simp only: ejecutar_append general fst_conv n k)
  qed
  from general scenario show ?thesis by blast
qed

theorem C6_estadisticas_witness:
  "fst (obtener_estadisticas (snd (ejecutar
      (peticiones_crear [(0, lit ''a''), (1, lit ''b''), (2, lit ''c'')] @
       peticiones_completar [2]) []))) =
    (Estadisticas_json 3 1 2, 200)"
proof -
  have h: "(\<forall>(now, s)\<in>set [(0::nat, lit ''a''), (1, lit ''b''), (2, lit ''c'')].
      strip s \<noteq> [] \<and> \<not> list_ex surrogate s) \<and>
    distinct [2::int] \<and> set [2] \<subseteq> {1..int (length [(0::nat, lit ''a''), (1, lit ''b''), (2, lit ''c'')])} \<and>
    list_all cabe_en_integer [2]"
    by (simp add: strip_def isspace_def surrogate_def lit_def cabe_en_integer_def)
  from C6_estadisticas [where xs = "[(0, lit ''a''), (1, lit ''b''), (2, lit ''c'')]"
      and ks = "[2]", THEN conjunct2, rule_format, OF h]
  show ?thesis by simp
qed

text \<open>
  C7. The claim: a POST whose \<open>texto\<close> is a string that is non-empty after
  stripping answers 201 with \<open>texto\<close> equal to the given text. The handler stores and
  returns the stripped text (line 124), so a text with white space around it is not
  returned as given; a \<open>completada\<close> that the Boolean column refuses raises at the
  commit, and so does a text that holds a surrogate, which cannot be encoded: the
  handler answers both with 500.
\<close>

theorem C7_texto_recortado:
  "crear_tarea 0 (JObj [(lit ''texto'', JStr (lit '' Buy milk ''))]) [] =
     ((Tarea_json \<lparr>d_id = 1, d_texto = lit ''Buy milk'', d_completada = Some False,
        d_fecha_creacion = 0\<rparr>, 201),
      [\<lparr>tarea_id = 1, texto = lit ''Buy milk'', completada = Some False,
         fecha_creacion = 0\<rparr>]) \<and>
   lit ''Buy milk'' \<noteq> lit '' Buy milk '' \<and>
   crear_tarea 0 (JObj [(lit ''texto'', JStr (lit ''Buy milk'')),
       (lit ''completada'', JStr (lit ''no''))]) [] =
     ((Error_json (Str_excepcion StatementError), 500), []) \<and>
   strip [55296] \<noteq> [] \<and>
   crear_tarea 0 (JObj [(lit ''texto'', JStr [55296])]) [] =
     ((Error_json (Str_excepcion UnicodeEncodeError), 500), [])"
  by code_simp

text \<open>
  C7, as amended. A POST whose body is an object with \<open>texto\<close> a string that is
  non-empty after stripping and holds no surrogate, and with \<open>completada\<close> omitted or
  a JSON boolean, on a table whose ids are positive (every table reached from the empty
  one is), answers 201 with the dict of the new row and appends that row to the table:
  its \<open>id\<close> is positive and is the id of no stored task, its \<open>texto\<close> is the given
  text stripped, its \<open>completada\<close> is false when omitted and the given boolean
  otherwise, and its \<open>fecha_creacion\<close> is the time of the request.
\<close>

theorem C7_crear_201:
  assumes texto: "map_of kvs (lit ''texto'') = Some (JStr s)" and novacio: "strip s \<noteq> []"
    and codificable: "\<not> list_ex surrogate s"
    and comp: "map_of kvs (lit ''completada'') = None \<or>
      map_of kvs (lit ''completada'') = Some (JBool c)"
    and positivos: "list_all (\<lambda>r. 0 < tarea_id r) t"
  shows "\<exists>d r. crear_tarea now (JObj kvs) t = ((Tarea_json d, 201), t @ [r]) \<and>
    d = to_dict r \<and> 0 < d_id d \<and> d_id d \<notin> set (map tarea_id t) \<and>
    d_texto d = strip s \<and> d_fecha_creacion d = now \<and>
    (map_of kvs (lit ''completada'') = None \<longrightarrow> d_completada d = Some False) \<and>
    (map_of kvs (lit ''completada'') = Some (JBool c) \<longrightarrow> d_completada d = Some c)"
proof -
  from texto have ne: "kvs \<noteq> []" by auto
  define b where "b = (case map_of kvs (lit ''completada'') of None \<Rightarrow> False | Some _ \<Rightarrow> c)"
  define r where "r = \<lparr>tarea_id = next_rowid t, texto = strip s, completada = Some b,
    fecha_creacion = now\<rparr>"
  note bind = bind_texto_strip [OF codificable]
  from comp have "crear_tarea_try now (JObj kvs) t = Inr ((Tarea_json (to_dict r), 201), t @ [r])"
    by (auto simp: crear_tarea_try_def texto novacio ne insert_tarea_def bind r_def b_def Let_def)
  then have "crear_tarea now (JObj kvs) t = ((Tarea_json (to_dict r), 201), t @ [r])"
    by (simp add: crear_tarea_def)
  moreover have "0 < d_id (to_dict r)"
    using next_rowid_positive [OF positivos] by (simp add: to_dict_def r_def)
  moreover have "d_id (to_dict r) \<notin> set (map tarea_id t)"
    using next_rowid_fresh [of t] by (simp add: to_dict_def r_def)
  moreover have "d_texto (to_dict r) = strip s" "d_fecha_creacion (to_dict r) = now"
    by (simp_all add: to_dict_def r_def)
  moreover have "map_of kvs (lit ''completada'') = None \<longrightarrow>
      d_completada (to_dict r) = Some False"
    by (simp add: to_dict_def r_def b_def)
  moreover have "map_of kvs (lit ''completada'') = Some (JBool c) \<longrightarrow>
      d_completada (to_dict r) = Some c"
    by (simp add: to_dict_def r_def b_def)
  ultimately show ?thesis
    by (intro exI [of _ "to_dict r"] exI [of _ r]) simp
qed

theorem C7_crear_201_witness:
  "\<exists>d r. crear_tarea 7 (JObj [(lit ''texto'', JStr (lit ''Buy milk''))]) [] =
       ((Tarea_json d, 201), [r]) \<and>
     d = to_dict r \<and> 0 < d_id d \<and> d_texto d = lit ''Buy milk'' \<and> d_fecha_creacion d = 7 \<and>
     d_completada d = Some False"
proof -
  have h1: "map_of [(lit ''texto'', JStr (lit ''Buy milk''))] (lit ''texto'') =
      Some (JStr (lit ''Buy milk''))"
    by simp
  have h2: "strip (lit ''Buy milk'') \<noteq> []" and s: "strip (lit ''Buy milk'') = lit ''Buy milk''"
    by code_simp+
  have h3: "\<not> list_ex surrogate (lit ''Buy milk'')"
    by code_simp
  have h4: "map_of [(lit ''texto'', JStr (lit ''Buy milk''))] (lit ''completada'') = None \<or>
      map_of [(lit ''texto'', JStr (lit ''Buy milk''))] (lit ''completada'') = Some (JBool True)"
    by (simp add: lit_eq_iff)
  have h5: "list_all (\<lambda>r. 0 < tarea_id r) []"
    by simp
  from C7_crear_201 [OF h1 h2 h3 h4 h5, of 7] h4 s show ?thesis
    by (auto simp: lit_eq_iff)
qed

text \<open>
  C8. On a table whose ids are unique (the primary key), a DELETE of a stored id
  answers 200 with the message "Tarea eliminada correctamente"; in the table it leaves,
  a GET of that id answers 404, there is exactly one row fewer, the rows are those of
  before but for the deleted one, and every other id is found with the row it had.
\<close>

theorem C8_eliminar:
  assumes pk: "distinct (map tarea_id t)" and found: "query_get i t = Inr (Some r)"
  shows "\<exists>t'. eliminar_tarea i t = ((Mensaje_tarea_eliminada, 200), t') \<and>
    obtener_tarea i t' = ((Error_json Tarea_no_encontrada, 404), t') \<and>
    length t = Suc (length t') \<and>
    set t' = set t - {r} \<and>
    (\<forall>j. j \<noteq> i \<longrightarrow> query_get j t' = query_get j t)"
proof -
  from found have r: "r \<in> set t" "tarea_id r = i" "cabe_en_integer i"
    by (simp_all add: query_get_SomeD)
  let ?t' = "delete_tarea r t"
  have "eliminar_tarea i t = ((Mensaje_tarea_eliminada, 200), ?t')"
    by (simp add: eliminar_tarea_def eliminar_tarea_try_def found)
  moreover have "obtener_tarea i ?t' = ((Error_json Tarea_no_encontrada, 404), ?t')"
    using query_get_delete_tarea_same [of r t] r(2,3)
    by (simp add: obtener_tarea_def obtener_tarea_try_def)
  moreover have "length t = Suc (length ?t')"
    using pk r(1) by (rule length_delete_tarea)
  moreover have "set ?t' = set t - {r}"
    using pk r(1) by (rule set_delete_tarea)
  moreover have "\<forall>j. j \<noteq> i \<longrightarrow> query_get j ?t' = query_get j t"
    using r(2) by (simp add: query_get_delete_tarea_other)
  ultimately show ?thesis by blast
qed

theorem C8_eliminar_witness:
  "distinct (map tarea_id
     [\<lparr>tarea_id = 1, texto = lit ''a'', completada = Some False, fecha_creacion = 0\<rparr>,
      \<lparr>tarea_id = 2, texto = lit ''b'', completada = Some True, fecha_creacion = 1\<rparr>]) \<and>
   query_get 1
     [\<lparr>tarea_id = 1, texto = lit ''a'', completada = Some False, fecha_creacion = 0\<rparr>,
      \<lparr>tarea_id = 2, texto = lit ''b'', completada = Some True, fecha_creacion = 1\<rparr>] =
     Inr (Some \<lparr>tarea_id = 1, texto = lit ''a'', completada = Some False,
       fecha_creacion = 0\<rparr>) \<and>
   (\<exists>t'. eliminar_tarea 1
       [\<lparr>tarea_id = 1, texto = lit ''a'', completada = Some False, fecha_creacion = 0\<rparr>,
        \<lparr>tarea_id = 2, texto = lit ''b'', completada = Some True, fecha_creacion = 1\<rparr>] =
       ((Mensaje_tarea_eliminada, 200), t') \<and>
     obtener_tarea 1 t' = ((Error_json Tarea_no_encontrada, 404), t') \<and>
     length t' = 1 \<and>
     query_get 2 t' =
       Inr (Some \<lparr>tarea_id = 2, texto = lit ''b'', completada = Some True,
         fecha_creacion = 1\<rparr>))"
proof -
  let ?r1 = "\<lparr>tarea_id = 1, texto = lit ''a'', completada = Some False, fecha_creacion = 0\<rparr>"
  let ?r2 = "\<lparr>tarea_id = 2, texto = lit ''b'', completada = Some True, fecha_creacion = 1\<rparr>"
  have pk: "distinct (map tarea_id [?r1, ?r2])"
    by simp
  have found: "query_get 1 [?r1, ?r2] = Inr (Some ?r1)"
    by (simp add: query_get_def cabe_en_integer_def)
  have other: "query_get 2 [?r1, ?r2] = Inr (Some ?r2)"
    by (simp add: query_get_def cabe_en_integer_def)
  from C8_eliminar [OF pk found] obtain t' where
    "eliminar_tarea 1 [?r1, ?r2] = ((Mensaje_tarea_eliminada, 200), t')"
    "obtener_tarea 1 t' = ((Error_json Tarea_no_encontrada, 404), t')"
    "length [?r1, ?r2] = Suc (length t')"
    "\<forall>j. j \<noteq> 1 \<longrightarrow> query_get j t' = query_get j [?r1, ?r2]"
    by blast
  with other have "eliminar_tarea 1 [?r1, ?r2] = ((Mensaje_tarea_eliminada, 200), t') \<and>
     obtener_tarea 1 t' = ((Error_json Tarea_no_encontrada, 404), t') \<and>
     length t' = 1 \<and> query_get 2 t' = Inr (Some ?r2)"
    by simp
  with pk found show ?thesis by blast
qed

text \<open>
  C9. A PUT repeated with the same id and the same body, right after the first,
  leaves the table as the first left it, and is answered as the first was. This holds
  for every body and every table, whether the first PUT answered 200, 404 or 500.
\<close>

theorem C9_put_idempotente:
  "actualizar_tarea i datos (snd (actualizar_tarea i datos t)) = actualizar_tarea i datos t"
proof (cases "actualizar_tarea_try i datos t")
  case (Inl e)
  then show ?thesis by (simp add: actualizar_tarea_def)
next
  case (Inr res)
  show ?thesis
  proof (cases "query_get i t")
    case (Inl e)
    with Inr show ?thesis by (simp add: actualizar_tarea_try_def)
  next
    case found: (Inr fila)
    show ?thesis
    proof (cases fila)
      case None
      with found show ?thesis by (simp add: actualizar_tarea_def actualizar_tarea_try_def)
    next
      case (Some r)
      with found Inr obtain r1 r2 t' where r1: "asignar_texto datos r = Inr r1"
        and r2: "asignar_completada datos r1 = Inr r2"
        and upd: "update_tarea r r2 t = Inr t'"
        and res: "res = ((Tarea_json (to_dict r2), 200), t')"
        by (auto simp: actualizar_tarea_try_def split: sum.splits)
      from upd have t': "t' = reemplazar r2 t" by (rule update_tarea_Inr)
      from Some found have "tarea_id r = i" by (simp add: query_get_SomeD)
      with r1 r2 have id2: "tarea_id r2 = i"
        by (simp add: asignar_texto_id asignar_completada_id)
      have again_found: "query_get i t' = Inr (Some r2)"
        unfolding t' using found [unfolded Some] id2 by (rule query_get_reemplazar)
      have again: "asignar_texto datos r2 = Inr r2" "asignar_completada datos r2 = Inr r2"
        using r1 r2 by (rule asignar_texto_again, intro asignar_completada_again)
      have "update_tarea r2 r2 t' = Inr t'"
        by (simp add: update_tarea_same_texto t' reemplazar_twice)
      then have "actualizar_tarea_try i datos t' = Inr res"
        by (simp add: actualizar_tarea_try_def again_found again res)
      with Inr res show ?thesis by (simp add: actualizar_tarea_def)
    qed
  qed
qed

text \<open>
  C10. A POST to \<open>/api/tareas\<close> whose body is an object that binds \<open>texto\<close> to
  anything but a string (a number, a boolean, null, a list, an object) answers 500, not
  400, with the error body of the \<open>AttributeError\<close> that \<open>strip\<close> raises, and the
  table is the one before the request.
\<close>

theorem C10_texto_no_string_500:
  assumes "map_of kvs (lit ''texto'') = Some v" and "\<forall>s. v \<noteq> JStr s"
  shows "crear_tarea now (JObj kvs) t = ((Error_json (Str_excepcion AttributeError), 500), t)"
proof -
  from assms(2) have "py_strip v = Inl AttributeError"
    by (cases v) auto
  moreover from assms(1) have "kvs \<noteq> []" by auto
  ultimately show ?thesis
    using assms(1) by (simp add: crear_tarea_def crear_tarea_try_def)
qed

theorem C10_texto_no_string_500_witness:
  "crear_tarea 0 (JObj [(lit ''texto'', JInt 5)]) [] =
     ((Error_json (Str_excepcion AttributeError), 500), []) \<and>
   crear_tarea 0 (JObj [(lit ''texto'', JBool True)]) [] =
     ((Error_json (Str_excepcion AttributeError), 500), [])"
  using C10_texto_no_string_500 [of "[(lit ''texto'', JInt 5)]" "JInt 5" 0 "[]"]
    C10_texto_no_string_500 [of "[(lit ''texto'', JBool True)]" "JBool True" 0 "[]"]
  by simp

end
